theory Spec2Isabelle
  imports Main "HOL-Library.Multiset"
begin

section \<open>The card game engine of game.ts\<close>

text \<open>
  The development embeds the class \<^verbatim>\<open>Game\<close> of game.ts with the phase handlers
  \<^verbatim>\<open>Burn\<close> (state/burn.ts) and \<^verbatim>\<open>EndOfGame\<close> (state/end-of-game.ts).
  JavaScript numbers that the engine uses as identifiers and indices are integers here;
  a value that may be \<^verbatim>\<open>undefined\<close> or \<^verbatim>\<open>null\<close> keeps both as separate
  constructors where the code compares with \<^verbatim>\<open>===\<close>.
\<close>

subsection \<open>Errors and results\<close>

text \<open>
  What a call can throw. \<^verbatim>\<open>throw InvalidAction\<close> in \<^verbatim>\<open>Game.action\<close> throws the class
  itself (\<open>InvalidActionClass\<close>), \<^verbatim>\<open>new InvalidAction(msg)\<close> an instance carrying its
  message, and a property read on \<^verbatim>\<open>undefined\<close> is the runtime's \<open>TypeError\<close>.
\<close>

datatype error =
    InvalidAction string
  | InvalidActionClass
  | TypeError
  | Error string

text \<open>The message \<^verbatim>\<open>new InvalidAction\<close> gets when none is passed.\<close>

definition defaultMessage :: string where
  "defaultMessage = ''Action is not allowed in current state''"

subsection \<open>Cards\<close>

text \<open>
  Modelled from the spec: card.ts is not among the sources. A card has a suit, a rank, an
  ability tag and a mutable used flag, and its identity is an opaque id. The four ability
  tags are the ones \<^verbatim>\<open>useAbilityAction\<close> switches on; \<open>UNKNOWN_ABILITY\<close> stands for
  any other value, which the switch sends to its default branch.
\<close>

datatype CardAbility =
    EXCHANGE_HAND_WITH_OTHER
  | SHOW_ONE_HAND_CARD
  | SHOW_ONE_OTHER_HAND_CARD
  | NO_ABILITY
  | UNKNOWN_ABILITY nat

record Card =
  ident :: string
  suit :: nat
  rank :: nat
  ability :: CardAbility
  used :: bool

definition getAbility :: "Card \<Rightarrow> CardAbility" where
  "getAbility c = ability c"

definition markAsUsed :: "Card \<Rightarrow> Card" where
  "markAsUsed c = c\<lparr>used := True\<rparr>"

definition equalsRank :: "Card \<Rightarrow> Card \<Rightarrow> bool" where
  "equalsRank c d = (rank c = rank d)"

subsection \<open>Card containers\<close>

text \<open>
  Modelled from the spec: card-stack.ts, deck.ts and card-hand.ts are not among the
  sources. A stack is the list of its cards, the top first: \<open>put\<close> pushes, \<open>pick\<close>
  removes the top and fails on an empty stack (the spec's "empty pile" error), \<open>topCard\<close>
  reads it. A hand is a container with no ordering significance that is looked up and
  removed from by card: \<open>handAdd\<close> appends, \<open>handRemove\<close> takes the card out,
  \<open>getCard\<close> finds a card by id and is \<^verbatim>\<open>undefined\<close> (\<open>None\<close>) when there is none.
\<close>

definition isEmpty :: "Card list \<Rightarrow> bool" where
  "isEmpty s = (s = [])"

definition put :: "Card list \<Rightarrow> Card \<Rightarrow> Card list" where
  "put s c = c # s"

definition pick :: "Card list \<Rightarrow> error + (Card \<times> Card list)" where
  "pick s = (case s of [] \<Rightarrow> Inl (InvalidAction ''empty pile'') | c # r \<Rightarrow> Inr (c, r))"

definition topCard :: "Card list \<Rightarrow> Card option" where
  "topCard s = (case s of [] \<Rightarrow> None | c # r \<Rightarrow> Some c)"

definition handAdd :: "Card list \<Rightarrow> Card \<Rightarrow> Card list" where
  "handAdd h c = h @ [c]"

definition handRemove :: "Card list \<Rightarrow> Card \<Rightarrow> Card list" where
  "handRemove h c = remove1 c h"

subsection \<open>Players\<close>

text \<open>
  A user id or a seat index as the engine receives it, a \<^verbatim>\<open>number\<close> that may be
  absent: \<^verbatim>\<open>payload?.userId\<close> is \<open>UNDEFINED\<close> without a payload, the leader
  starts as \<open>NULL\<close>, and \<^verbatim>\<open>===\<close> tells the three apart.
\<close>

datatype number = UNDEFINED | NULL | Num int

text \<open>
  Modelled from the spec: player.ts is not among the sources. A seat is optionally bound
  to a user identity (\<open>ownerId\<close>, \<open>NULL\<close> while unbound) and owns one hand;
  \<open>isOwner\<close> compares the bound identity with the given one.
\<close>

record Player =
  ownerId :: number
  handCards :: "Card list"

definition newPlayer :: Player where
  "newPlayer = \<lparr>ownerId = NULL, handCards = []\<rparr>"

definition isOwner :: "Player \<Rightarrow> number \<Rightarrow> bool" where
  "isOwner p u = (ownerId p = u)"

definition getCard :: "Player \<Rightarrow> string \<Rightarrow> Card option" where
  "getCard p cid = find (\<lambda>c. ident c = cid) (handCards p)"

definition addCardToHand :: "Player \<Rightarrow> Card \<Rightarrow> Player" where
  "addCardToHand p c = p\<lparr>handCards := handAdd (handCards p) c\<rparr>"

subsection \<open>Actions, phases and the game\<close>

datatype Action =
    CREATE_GAME
  | START_GAME
  | PREPARE_ROUND
  | START_ROUND
  | JOIN_AS_PLAYER
  | JOIN_AS_SPECTATOR
  | DISTRIBUTE_CARD
  | SELECT_FIRST_TURN
  | PICK_CARD_FROM_PILE
  | PICK_CARD_FROM_BURNED
  | BURN_ONE_HAND_CARD
  | BURN_CARD
  | THROW_CARD
  | USE_ABILITY
  | EXCHANGE_PICK_WITH_HAND
  | EXCHANGE_HAND_WITH_OTHER
  | SHOW_ONE_HAND_CARD
  | SHOW_ONE_OTHER_HAND_CARD
  | NEXT_TURN
  | PASS
  | RESTART
  | LEAVE
  | NO_ACTION

text \<open>The phase classes game.ts imports, with \<open>BeginOfGame\<close> and \<open>EndOfGame\<close>.\<close>

datatype State =
    BeginOfGame
  | RoundStart
  | PickBurn
  | PilePicked
  | BurnedPicked
  | Burn
  | EndRound
  | EndOfGame
  | ExchangeHandWithOther
  | ShowOneHandCard
  | ShowOneOtherHandCard

text \<open>
  Modelled from the spec: state/state.ts, which declares the payload of an action, is not
  among the sources. The fields are the ones the spec lists for the actions, which are
  also the ones game.ts reads. \<open>playerId\<close> and \<open>otherPlayerId\<close> are seat indices,
  \<open>UNDEFINED\<close> when the caller sent none.
\<close>

record UserActionPayload =
  userId :: number
  playerId :: number
  cardId :: string
  otherPlayerId :: number
  otherCardId :: string

text \<open>
  The fields of \<^verbatim>\<open>Game\<close>. The seats are the array \<open>players\<close>, whose objects are
  created once by \<^verbatim>\<open>initializePlayers\<close>; a reference to one of them
  (\<^verbatim>\<open>userPlayer\<close>'s values, \<^verbatim>\<open>passedBy\<close>) is its index in the array, so that a
  change made through the reference is a change of the seat. \<open>userPlayer\<close> is the
  \<^verbatim>\<open>Map\<close> from user ids to seats in insertion order; a value \<open>None\<close> is a stored
  \<^verbatim>\<open>undefined\<close>. \<open>turn\<close> is \<open>None\<close> while it indexes no seat (it is
  \<^verbatim>\<open>undefined\<close> until the first turn is selected). The maps \<^verbatim>\<open>userSpectator\<close> and
  \<^verbatim>\<open>jointType\<close> are left out: no operation reads or writes them.
\<close>

record Game =
  players :: "Player list"
  deck :: "Card list"
  burnedCards :: "Card list"
  pileOfCards :: "Card list"
  passedBy :: "nat option"
  turn :: "nat option"
  state :: State
  maxNumberOfPlayers :: nat
  isGameStarted :: bool
  pickedCard :: "Card option"
  leader :: number
  userPlayer :: "(number \<times> nat option) list"

text \<open>
  The outcome of a call on a game: it returns (\<open>Ok\<close>) or throws (\<open>Throw\<close>), and
  either way the game object is left in some state, which the outcome carries.
\<close>

datatype result = Ok Game | Throw error Game

definition outcome :: "result \<Rightarrow> Game" where
  "outcome r = (case r of Ok g \<Rightarrow> g | Throw e g \<Rightarrow> g)"

definition INTERNAL_BASED_ACTION :: "Action list" where
  "INTERNAL_BASED_ACTION = [START_GAME, START_ROUND, DISTRIBUTE_CARD, SELECT_FIRST_TURN, NEXT_TURN]"

definition USER_BASED_ACTION :: "Action list" where
  "USER_BASED_ACTION = [JOIN_AS_PLAYER, JOIN_AS_SPECTATOR, LEAVE]"

definition MIN_NUMBER_OF_PLAYERS :: int where
  "MIN_NUMBER_OF_PLAYERS = 3"

definition MAX_NUMBER_OF_PLAYERS :: int where
  "MAX_NUMBER_OF_PLAYERS = 8"

definition DEFAULT_NUMBER_OF_CARDS_PER_HAND :: nat where
  "DEFAULT_NUMBER_OF_CARDS_PER_HAND = 4"

definition LEADER_BASED_ACTIONS :: "Action list" where
  "LEADER_BASED_ACTIONS = [START_GAME, RESTART]"

definition USER_TURN_BASED_ACTION :: "Action list" where
  "USER_TURN_BASED_ACTION =
     [BURN_CARD, EXCHANGE_PICK_WITH_HAND, PASS, USE_ABILITY, THROW_CARD,
      PICK_CARD_FROM_BURNED, PICK_CARD_FROM_PILE]"

subsection \<open>Construction\<close>

definition isValidMaxNumberOfPlayers :: "int \<Rightarrow> bool" where
  "isValidMaxNumberOfPlayers n = (MIN_NUMBER_OF_PLAYERS \<le> n \<and> n \<le> MAX_NUMBER_OF_PLAYERS)"

definition initializePlayers :: "nat \<Rightarrow> Player list" where
  "initializePlayers n = replicate n newPlayer"

text \<open>
  The constructor. \<^verbatim>\<open>new Deck()\<close> holds the full configured card set; deck.ts is not
  among the sources, so the set is the parameter \<open>cards\<close>.
\<close>

definition newGame :: "Card list \<Rightarrow> int \<Rightarrow> State \<Rightarrow> error + Game" where
  "newGame cards n st =
     (if \<not> isValidMaxNumberOfPlayers n then Inl (Error ''Invalid maximum number of players'')
      else Inr \<lparr>players = initializePlayers (nat n), deck = cards, burnedCards = [],
                pileOfCards = [], passedBy = None, turn = None, state = st,
                maxNumberOfPlayers = nat n, isGameStarted = False, pickedCard = None,
                leader = NULL, userPlayer = []\<rparr>)"

subsection \<open>Queries\<close>

text \<open>\<^verbatim>\<open>userPlayer.size\<close>; the keys of the list are distinct, as \<open>userPlayer_set\<close> keeps them.\<close>

definition numberOfPlayers :: "Game \<Rightarrow> nat" where
  "numberOfPlayers g = length (userPlayer g)"

definition isJoinedAsPlayer :: "Game \<Rightarrow> number \<Rightarrow> bool" where
  "isJoinedAsPlayer g u = (map_of (userPlayer g) u \<noteq> None)"

text \<open>\<^verbatim>\<open>userPlayer.get(userId)\<close>: the seat, or \<^verbatim>\<open>undefined\<close>.\<close>

definition userPlayer_get :: "Game \<Rightarrow> number \<Rightarrow> nat option" where
  "userPlayer_get g u = (case map_of (userPlayer g) u of None \<Rightarrow> None | Some s \<Rightarrow> s)"

text \<open>\<^verbatim>\<open>userPlayer.set(userId, player)\<close>: a new key goes last, a known key keeps its place.\<close>

fun userPlayer_set :: "(number \<times> nat option) list \<Rightarrow> number \<Rightarrow> nat option \<Rightarrow> (number \<times> nat option) list" where
  "userPlayer_set [] u s = [(u, s)]"
| "userPlayer_set ((k, v) # m) u s = (if k = u then (k, s) # m else (k, v) # userPlayer_set m u s)"

definition isLeaderUser :: "Game \<Rightarrow> number \<Rightarrow> bool" where
  "isLeaderUser g u = (leader g = u)"

text \<open>
  \<^verbatim>\<open>0 <= playerId && playerId < this.players.length\<close>: a comparison with
  \<^verbatim>\<open>undefined\<close> is false, and \<^verbatim>\<open>null\<close> compares as 0.
\<close>

definition isValidPlayer :: "Game \<Rightarrow> number \<Rightarrow> bool" where
  "isValidPlayer g i =
     (case i of UNDEFINED \<Rightarrow> False
      | NULL \<Rightarrow> 0 < length (players g)
      | Num n \<Rightarrow> 0 \<le> n \<and> n < int (length (players g)))"

text \<open>
  \<^verbatim>\<open>this.players[playerId]\<close>: the seat's index, or \<^verbatim>\<open>undefined\<close> when the array
  has no such element (\<^verbatim>\<open>players[null]\<close> reads the property "null").
\<close>

definition players_at :: "Game \<Rightarrow> number \<Rightarrow> nat option" where
  "players_at g i =
     (case i of Num n \<Rightarrow> (if 0 \<le> n \<and> n < int (length (players g)) then Some (nat n) else None)
      | _ \<Rightarrow> None)"

definition isFull :: "Game \<Rightarrow> bool" where
  "isFull g = (numberOfPlayers g = maxNumberOfPlayers g)"

text \<open>
  \<^verbatim>\<open>this.players[this.turn].isOwner(userId)\<close>: with no seat at \<open>turn\<close> the method
  call is on \<^verbatim>\<open>undefined\<close> and throws.
\<close>

definition isUserTurn :: "Game \<Rightarrow> number \<Rightarrow> error + bool" where
  "isUserTurn g u =
     (case turn g of None \<Rightarrow> Inl TypeError
      | Some t \<Rightarrow> if t < length (players g) then Inr (isOwner (players g ! t) u) else Inl TypeError)"

subsection \<open>The action validator\<close>

definition validateUsingActionBased :: "Game \<Rightarrow> Action \<Rightarrow> number \<Rightarrow> error + bool" where
  "validateUsingActionBased g a u =
     (if a \<in> set LEADER_BASED_ACTIONS then Inr (isLeaderUser g u)
      else if a \<in> set USER_BASED_ACTION then Inr (u \<noteq> NULL \<and> u \<noteq> UNDEFINED)
      else if a \<in> set USER_TURN_BASED_ACTION then isUserTurn g u
      else Inr ((u = NULL \<or> u = UNDEFINED) \<and> a \<in> set INTERNAL_BASED_ACTION))"

subsection \<open>Turn and seats\<close>

definition setLeader :: "Game \<Rightarrow> number \<Rightarrow> Game" where
  "setLeader g u = g\<lparr>leader := u\<rparr>"

text \<open>
  \<^verbatim>\<open>(this.turn + 1) % this.players.length\<close>; from \<^verbatim>\<open>undefined\<close> the sum is NaN,
  which indexes no seat either.
\<close>

definition nextTurn :: "Game \<Rightarrow> Game" where
  "nextTurn g =
     g\<lparr>turn := (case turn g of None \<Rightarrow> None
                 | Some t \<Rightarrow> if players g = [] then None
                            else Some ((t + 1) mod length (players g)))\<rparr>"

text \<open>
  \<^verbatim>\<open>Math.floor(Math.random() * this.players.length)\<close>: \<open>r\<close> is the random source's
  draw, and every index below the seat count is the result for some draw.
\<close>

definition selectFirstTurnAction :: "nat \<Rightarrow> Game \<Rightarrow> Game" where
  "selectFirstTurnAction r g =
     g\<lparr>turn := Some (if players g = [] then 0 else r mod length (players g))\<rparr>"

text \<open>\<^verbatim>\<open>this.passedBy = this.players[this.turn]\<close>\<close>

definition passAction :: "Game \<Rightarrow> Game" where
  "passAction g =
     g\<lparr>passedBy := (case turn g of None \<Rightarrow> None
                     | Some t \<Rightarrow> if t < length (players g) then Some t else None)\<rparr>"

definition endOfTurn :: "Game \<Rightarrow> Game" where
  "endOfTurn g = g\<lparr>pickedCard := None\<rparr>"

subsection \<open>Joining\<close>

definition joinAsPlayerAction :: "Game \<Rightarrow> number \<Rightarrow> number \<Rightarrow> result" where
  "joinAsPlayerAction g u pid =
     (if isJoinedAsPlayer g u then Throw (InvalidAction ''Player already joined'') g
      else if \<not> isValidPlayer g pid then Throw (InvalidAction ''Invalid position or already taken'') g
      else if isFull g then Throw (InvalidAction ''The game is already full join another game'') g
      else let g1 = (if numberOfPlayers g = 0 then setLeader g u else g)
           in Ok (g1\<lparr>userPlayer := userPlayer_set (userPlayer g1) u (players_at g1 pid)\<rparr>))"

subsection \<open>Dealing\<close>

text \<open>
  Modelled from the spec: \<^verbatim>\<open>Deck.pop\<close>, \<^verbatim>\<open>Deck.isEmpty\<close> and \<^verbatim>\<open>Deck.shuffle\<close> are
  not among the sources. The deck is the list of its cards, the next card to pop first.
  Popping an empty deck is described nowhere; the model makes it an error of its own
  (\<open>Error ''deck exhausted''\<close>) that stops the deal where it is.
\<close>

fun dealHand :: "nat \<Rightarrow> Card list \<Rightarrow> Player \<Rightarrow> Card list \<times> Player \<times> bool" where
  "dealHand 0 d p = (d, p, True)"
| "dealHand (Suc n) [] p = ([], p, False)"
| "dealHand (Suc n) (c # d) p = dealHand n d (addCardToHand p c)"

text \<open>
  The \<^verbatim>\<open>forEach\<close> over \<^verbatim>\<open>this.players\<close>: every seat of the array in index order,
  \<open>DEFAULT_NUMBER_OF_CARDS_PER_HAND\<close> pops each.
\<close>

fun dealPlayers :: "Card list \<Rightarrow> Player list \<Rightarrow> Card list \<times> Player list \<times> bool" where
  "dealPlayers d [] = (d, [], True)"
| "dealPlayers d (p # ps) =
     (case dealHand DEFAULT_NUMBER_OF_CARDS_PER_HAND d p of
        (d1, p1, ok) \<Rightarrow>
          if ok then (case dealPlayers d1 ps of (d2, ps2, ok2) \<Rightarrow> (d2, p1 # ps2, ok2))
          else (d1, p1 # ps, False))"

text \<open>\<^verbatim>\<open>while (!this.deck.isEmpty()) this.pileOfCards.put(this.deck.pop())\<close>\<close>

fun deckToPile :: "Card list \<Rightarrow> Card list \<Rightarrow> Card list" where
  "deckToPile [] pile = pile"
| "deckToPile (c # d) pile = deckToPile d (put pile c)"

definition distributeCardsAction :: "Game \<Rightarrow> result" where
  "distributeCardsAction g =
     (case dealPlayers (deck g) (players g) of
        (d, ps, ok) \<Rightarrow>
          if ok then Ok (g\<lparr>players := ps, deck := [], pileOfCards := deckToPile d (pileOfCards g)\<rparr>)
          else Throw (Error ''deck exhausted'') (g\<lparr>players := ps, deck := d\<rparr>))"

text \<open>\<^verbatim>\<open>emitTwoCards\<close> sends two cards of each hand to its owner; the game is not changed.\<close>

definition showTwoHandCardsAction :: "Game \<Rightarrow> Game" where
  "showTwoHandCardsAction g = g"

text \<open>
  \<^verbatim>\<open>startRoundAction\<close> ends with \<^verbatim>\<open>this.setState(new PickBurn)\<close>; \<open>PickBurn\<close> is not
  \<open>RoundStart\<close>, so that call is the assignment of the phase and nothing more
  (\<open>setState_other\<close> below).
\<close>

definition startRoundAction :: "Game \<Rightarrow> result" where
  "startRoundAction g =
     (case distributeCardsAction g of
        Throw e g1 \<Rightarrow> Throw e g1
      | Ok g1 \<Rightarrow> Ok ((showTwoHandCardsAction g1)\<lparr>state := PickBurn\<rparr>))"

subsection \<open>Phase handlers\<close>

text \<open>
  \<^verbatim>\<open>Burn.action\<close> of state/burn.ts. It calls \<^verbatim>\<open>context.burnAction()\<close>; what that
  call does is the parameter \<open>burnAction\<close>.
\<close>

definition Burn_action :: "(Game \<Rightarrow> result) \<Rightarrow> Game \<Rightarrow> Action \<Rightarrow> UserActionPayload option \<Rightarrow> result" where
  "Burn_action burnAction g a p =
     (case a of BURN_CARD \<Rightarrow> burnAction g
      | _ \<Rightarrow> Throw (InvalidAction defaultMessage) g)"


text \<open>
  \<^verbatim>\<open>EndOfGame.action\<close> of state/end-of-game.ts. Its one case is
  \<^verbatim>\<open>Action.END_OF_GAME\<close>, which the enum \<^verbatim>\<open>Action\<close> of game.ts does not have: no
  action of the enum matches it, and every action takes the default branch.
\<close>

definition EndOfGame_action :: "Game \<Rightarrow> Action \<Rightarrow> UserActionPayload option \<Rightarrow> result" where
  "EndOfGame_action g a p = Throw (InvalidAction defaultMessage) g"

text \<open>
  Modelled from the spec: state/round-start.ts is not among the sources. The phase
  accepts the internal action \<open>START_ROUND\<close>, which deals the round, and rejects every
  other action.
\<close>

definition RoundStart_action :: "Game \<Rightarrow> Action \<Rightarrow> UserActionPayload option \<Rightarrow> result" where
  "RoundStart_action g a p =
     (case a of START_ROUND \<Rightarrow> startRoundAction g
      | _ \<Rightarrow> Throw (InvalidAction defaultMessage) g)"

text \<open>
  The handlers of the other phases are not among the sources; \<open>others\<close> stands for
  them.
\<close>

definition State_action ::
  "(Game \<Rightarrow> result) \<Rightarrow> (State \<Rightarrow> Game \<Rightarrow> Action \<Rightarrow> UserActionPayload option \<Rightarrow> result) \<Rightarrow>
   State \<Rightarrow> Game \<Rightarrow> Action \<Rightarrow> UserActionPayload option \<Rightarrow> result" where
  "State_action burnAction others s g a p =
     (case s of
        Burn \<Rightarrow> Burn_action burnAction g a p
      | EndOfGame \<Rightarrow> EndOfGame_action g a p
      | RoundStart \<Rightarrow> RoundStart_action g a p
      | _ \<Rightarrow> others s g a p)"

subsection \<open>The entry point\<close>

definition payload_userId :: "UserActionPayload option \<Rightarrow> number" where
  "payload_userId p = (case p of None \<Rightarrow> UNDEFINED | Some pl \<Rightarrow> userId pl)"

definition action ::
  "(Game \<Rightarrow> result) \<Rightarrow> (State \<Rightarrow> Game \<Rightarrow> Action \<Rightarrow> UserActionPayload option \<Rightarrow> result) \<Rightarrow>
   Game \<Rightarrow> Action \<Rightarrow> UserActionPayload option \<Rightarrow> result" where
  "action burnAction others g a p =
     (case validateUsingActionBased g a (payload_userId p) of
        Inl e \<Rightarrow> Throw e g
      | Inr ok \<Rightarrow>
          if \<not> ok then Throw InvalidActionClass g
          else (case a of
                  JOIN_AS_PLAYER \<Rightarrow>
                    (case p of None \<Rightarrow> Throw TypeError g
                     | Some pl \<Rightarrow> joinAsPlayerAction g (userId pl) (playerId pl))
                | _ \<Rightarrow> State_action burnAction others (state g) g a p))"

text \<open>
  \<^verbatim>\<open>setState\<close>: the phase is assigned, and a \<open>RoundStart\<close> phase at once receives the
  internal action \<open>START_ROUND\<close> through \<^verbatim>\<open>this.action\<close>, with no payload.
\<close>

definition setState :: "Game \<Rightarrow> State \<Rightarrow> result" where
  "setState g s =
     (let g1 = g\<lparr>state := s\<rparr>
      in if s = RoundStart then
           (case validateUsingActionBased g1 START_ROUND UNDEFINED of
              Inl e \<Rightarrow> Throw e g1
            | Inr ok \<Rightarrow>
                if \<not> ok then Throw InvalidActionClass g1
                else RoundStart_action g1 START_ROUND None)
         else Ok g1)"

subsection \<open>Starting the game\<close>

text \<open>
  Modelled from the spec: \<^verbatim>\<open>Deck.shuffle\<close> reorders the cards of the deck and neither
  adds nor removes one. The order is the random source's choice; it is given as the list
  of transpositions to apply, so that every order can be chosen.
\<close>

fun shuffle :: "(nat \<times> nat) list \<Rightarrow> Card list \<Rightarrow> Card list" where
  "shuffle [] d = d"
| "shuffle ((i, j) # sw) d =
     shuffle sw (if i < length d \<and> j < length d then d[i := d ! j, j := d ! i] else d)"

definition startGameAction :: "(nat \<times> nat) list \<Rightarrow> nat \<Rightarrow> Game \<Rightarrow> result" where
  "startGameAction sw r g =
     (if isGameStarted g then Throw (InvalidAction ''Game already started'') g
      else let g1 = g\<lparr>isGameStarted := True\<rparr>;
               g2 = g1\<lparr>deck := shuffle sw (deck g1)\<rparr>;
               g3 = selectFirstTurnAction r g2
           in setState g3 RoundStart)"

subsection \<open>Picking\<close>

definition pickCardFromPileAction :: "Game \<Rightarrow> result" where
  "pickCardFromPileAction g =
     (case pick (pileOfCards g) of
        Inl e \<Rightarrow> Throw e g
      | Inr (c, r) \<Rightarrow> setState (g\<lparr>pileOfCards := r, pickedCard := Some c\<rparr>) PilePicked)"

definition pickCardFromBurnedAction :: "Game \<Rightarrow> result" where
  "pickCardFromBurnedAction g =
     (case pick (burnedCards g) of
        Inl e \<Rightarrow> Throw e g
      | Inr (c, r) \<Rightarrow> setState (g\<lparr>burnedCards := r, pickedCard := Some c\<rparr>) BurnedPicked)"

subsection \<open>Burning a hand card\<close>

text \<open>The seat object behind a reference, \<^verbatim>\<open>undefined\<close> when the array has none there.\<close>

definition seat :: "Game \<Rightarrow> nat option \<Rightarrow> Player option" where
  "seat g ref =
     (case ref of None \<Rightarrow> None
      | Some s \<Rightarrow> if s < length (players g) then Some (players g ! s) else None)"

text \<open>Writing the hand of the seat at index \<open>s\<close>.\<close>

definition setHand :: "Game \<Rightarrow> nat \<Rightarrow> Card list \<Rightarrow> Game" where
  "setHand g s h = g\<lparr>players := (players g)[s := (players g ! s)\<lparr>handCards := h\<rparr>]\<rparr>"

text \<open>
  \<^verbatim>\<open>player.getCard\<close> on a user without a seat and \<^verbatim>\<open>card.equalsRank\<close> on a card
  that the hand does not hold are calls on \<^verbatim>\<open>undefined\<close>.
\<close>

definition burnOneHandCardAction :: "Game \<Rightarrow> number \<Rightarrow> string \<Rightarrow> result" where
  "burnOneHandCardAction g u cid =
     (if isEmpty (burnedCards g) then Throw (InvalidAction ''Burned cards stack is empty'') g
      else
        (case userPlayer_get g u of
           None \<Rightarrow> Throw TypeError g
         | Some s \<Rightarrow>
             (case seat g (Some s) of
                None \<Rightarrow> Throw TypeError g
              | Some player \<Rightarrow>
                  (case getCard player cid of
                     None \<Rightarrow> Throw TypeError g
                   | Some theCard \<Rightarrow>
                       (case topCard (burnedCards g) of
                          None \<Rightarrow> Throw TypeError g
                        | Some topBurnedCard \<Rightarrow>
                            if equalsRank theCard topBurnedCard then
                              setState
                                ((setHand g s (handRemove (handCards player) theCard))
                                   \<lparr>burnedCards := put (burnedCards g) theCard\<rparr>)
                                EndRound
                            else
                              (case pick (burnedCards g) of
                                 Inl e \<Rightarrow> Throw e g
                               | Inr (b, r) \<Rightarrow>
                                   setState
                                     ((setHand g s (handAdd (handCards player) b))
                                        \<lparr>burnedCards := r\<rparr>)
                                     EndRound))))))"

subsection \<open>Abilities\<close>

definition useAbilityAction :: "Game \<Rightarrow> result" where
  "useAbilityAction g =
     (case pickedCard g of
        None \<Rightarrow> Throw TypeError g
      | Some c \<Rightarrow>
          (let cardAbility = getAbility c;
               g1 = g\<lparr>pickedCard := Some (markAsUsed c)\<rparr>
           in case cardAbility of
                CardAbility.EXCHANGE_HAND_WITH_OTHER \<Rightarrow> setState g1 ExchangeHandWithOther
              | CardAbility.SHOW_ONE_HAND_CARD \<Rightarrow> setState g1 ShowOneHandCard
              | CardAbility.SHOW_ONE_OTHER_HAND_CARD \<Rightarrow> setState g1 ShowOneOtherHandCard
              | NO_ABILITY \<Rightarrow> setState g1 Burn
              | UNKNOWN_ABILITY n \<Rightarrow> Throw (InvalidAction ''Unknown ability'') g1))"

text \<open>
  The two exchanges read the cards into local variables and swap the variables; neither
  the hands nor \<^verbatim>\<open>pickedCard\<close> are written.
\<close>

definition exchangePickWithHandAction :: "Game \<Rightarrow> number \<Rightarrow> string \<Rightarrow> result" where
  "exchangePickWithHandAction g u cid =
     (case seat g (userPlayer_get g u) of
        None \<Rightarrow> Throw TypeError g
      | Some player \<Rightarrow>
          (let theCard = getCard player cid;
               picked = pickedCard g;
               (picked', theCard') = (theCard, picked)
           in setState g Burn))"

definition exchangeHandWithOther :: "Game \<Rightarrow> number \<Rightarrow> string \<Rightarrow> number \<Rightarrow> string \<Rightarrow> result" where
  "exchangeHandWithOther g u cid otherPid ocid =
     (if isValidPlayer g otherPid then
        (let player = userPlayer_get g u;
             otherPlayer = players_at g otherPid
         in if player = otherPlayer then
              Throw (InvalidAction ''Changing card with your self is not allowed'') g
            else
              (case seat g player of
                 None \<Rightarrow> Throw TypeError g
               | Some pl \<Rightarrow>
                   (case seat g otherPlayer of
                      None \<Rightarrow> Throw TypeError g
                    | Some opl \<Rightarrow>
                        (let playerCard = getCard pl cid;
                             otherPlayerCard = getCard opl ocid;
                             (playerCard', otherPlayerCard') = (otherPlayerCard, playerCard)
                         in setState g Burn))))
      else Throw (InvalidAction ''Pick valid card your turn.'') g)"

definition showOneHandCardAction :: "Game \<Rightarrow> number \<Rightarrow> string \<Rightarrow> result" where
  "showOneHandCardAction g u cid =
     (case seat g (userPlayer_get g u) of
        None \<Rightarrow> Throw TypeError g
      | Some player \<Rightarrow> (let theCard = getCard player cid in setState g Burn))"

definition showOneOtherHandCardAction :: "Game \<Rightarrow> number \<Rightarrow> number \<Rightarrow> string \<Rightarrow> result" where
  "showOneOtherHandCardAction g u otherPid ocid =
     (if isValidPlayer g otherPid then
        (case seat g (players_at g otherPid) of
           None \<Rightarrow> Throw TypeError g
         | Some opl \<Rightarrow> (let theCard = getCard opl ocid in setState g Burn))
      else Throw (InvalidAction ''Pick valid card'') g)"

subsection \<open>Where the cards are\<close>

text \<open>
  The cards of the four containers (deck, draw pile, burn pile, hands in seat order), and
  the cards the game holds at all: those and the picked card.
\<close>

definition containerCards :: "Game \<Rightarrow> Card list" where
  "containerCards g =
     deck g @ pileOfCards g @ burnedCards g @ concat (map handCards (players g))"

definition heldCards :: "Game \<Rightarrow> Card list" where
  "heldCards g = containerCards g @ (case pickedCard g of None \<Rightarrow> [] | Some c \<Rightarrow> [c])"

text \<open>
  A call of one of the operations of game.ts, with its arguments (for the start of the
  game also the random source's choices), and the game it leaves, whether it returns or
  throws.
\<close>

datatype Call =
    DoJoinAsPlayerAction number number
  | DoStartGameAction "(nat \<times> nat) list" nat
  | DoStartRoundAction
  | DoDistributeCardsAction
  | DoPickCardFromPileAction
  | DoPickCardFromBurnedAction
  | DoBurnOneHandCardAction number string
  | DoUseAbilityAction
  | DoExchangePickWithHandAction number string
  | DoExchangeHandWithOther number string number string
  | DoShowOneHandCardAction number string
  | DoShowOneOtherHandCardAction number number string
  | DoPassAction
  | DoNextTurn
  | DoEndOfTurn

fun perform :: "Game \<Rightarrow> Call \<Rightarrow> Game" where
  "perform g (DoJoinAsPlayerAction u pid) = outcome (joinAsPlayerAction g u pid)"
| "perform g (DoStartGameAction sw r) = outcome (startGameAction sw r g)"
| "perform g DoStartRoundAction = outcome (startRoundAction g)"
| "perform g DoDistributeCardsAction = outcome (distributeCardsAction g)"
| "perform g DoPickCardFromPileAction = outcome (pickCardFromPileAction g)"
| "perform g DoPickCardFromBurnedAction = outcome (pickCardFromBurnedAction g)"
| "perform g (DoBurnOneHandCardAction u cid) = outcome (burnOneHandCardAction g u cid)"
| "perform g DoUseAbilityAction = outcome (useAbilityAction g)"
| "perform g (DoExchangePickWithHandAction u cid) = outcome (exchangePickWithHandAction g u cid)"
| "perform g (DoExchangeHandWithOther u cid otherPid ocid) =
     outcome (exchangeHandWithOther g u cid otherPid ocid)"
| "perform g (DoShowOneHandCardAction u cid) = outcome (showOneHandCardAction g u cid)"
| "perform g (DoShowOneOtherHandCardAction u otherPid ocid) =
     outcome (showOneOtherHandCardAction g u otherPid ocid)"
| "perform g DoPassAction = passAction g"
| "perform g DoNextTurn = nextTurn g"
| "perform g DoEndOfTurn = endOfTurn g"

text \<open>The game after a sequence of calls, one after the other.\<close>

fun run :: "Game \<Rightarrow> Call list \<Rightarrow> Game" where
  "run g [] = g"
| "run g (c # cs) = run (perform g c) cs"

definition isPick :: "Call \<Rightarrow> bool" where
  "isPick c = (c = DoPickCardFromPileAction \<or> c = DoPickCardFromBurnedAction)"

text \<open>
  The sequences of calls, made from the game \<open>g\<close> on, in which every pick is made while
  no card is picked and \<open>endOfTurn\<close> is not called.
\<close>

fun pickedCardKept :: "Game \<Rightarrow> Call list \<Rightarrow> bool" where
  "pickedCardKept g [] = True"
| "pickedCardKept g (c # cs) =
     (if c = DoEndOfTurn then False
      else if isPick c \<and> pickedCard g \<noteq> None then False
      else pickedCardKept (perform g c) cs)"

subsection \<open>Example games\<close>

text \<open>A card with the given id and rank, no ability, not used.\<close>

definition mkCard :: "string \<Rightarrow> nat \<Rightarrow> Card" where
  "mkCard i r = \<lparr>ident = i, suit = 0, rank = r, ability = NO_ABILITY, used = False\<rparr>"

text \<open>Thirteen cards: four for each of three seats and one for the draw pile.\<close>

definition exampleCards :: "Card list" where
  "exampleCards =
     [mkCard ''a'' 1, mkCard ''b'' 2, mkCard ''c'' 3, mkCard ''d'' 4,
      mkCard ''e'' 5, mkCard ''f'' 6, mkCard ''g'' 7, mkCard ''h'' 8,
      mkCard ''i'' 9, mkCard ''j'' 10, mkCard ''k'' 11, mkCard ''l'' 12,
      mkCard ''m'' 13]"

text \<open>The game \<^verbatim>\<open>new Game(3, BeginOfGame)\<close> over these cards.\<close>

definition exampleGame :: Game where
  "exampleGame =
     \<lparr>players = [newPlayer, newPlayer, newPlayer], deck = exampleCards, burnedCards = [],
      pileOfCards = [], passedBy = None, turn = None, state = BeginOfGame,
      maxNumberOfPlayers = 3, isGameStarted = False, pickedCard = None,
      leader = NULL, userPlayer = []\<rparr>"

text \<open>The same game after user 1 joined seat 0: \<open>exampleJoined\<close>.\<close>

definition exampleJoined :: Game where
  "exampleJoined = exampleGame\<lparr>leader := Num 1, userPlayer := [(Num 1, Some 0)]\<rparr>"

text \<open>
  After the start of the game with the deck left in order and seat 0 drawn for the first
  turn: \<open>exampleDealt\<close>.
\<close>

definition exampleDealt :: Game where
  "exampleDealt =
     \<lparr>players =
        [\<lparr>ownerId = NULL,
          handCards = [mkCard ''a'' 1, mkCard ''b'' 2, mkCard ''c'' 3, mkCard ''d'' 4]\<rparr>,
         \<lparr>ownerId = NULL,
          handCards = [mkCard ''e'' 5, mkCard ''f'' 6, mkCard ''g'' 7, mkCard ''h'' 8]\<rparr>,
         \<lparr>ownerId = NULL,
          handCards = [mkCard ''i'' 9, mkCard ''j'' 10, mkCard ''k'' 11, mkCard ''l'' 12]\<rparr>],
      deck = [], burnedCards = [], pileOfCards = [mkCard ''m'' 13], passedBy = None,
      turn = Some 0, state = PickBurn, maxNumberOfPlayers = 3, isGameStarted = True,
      pickedCard = None, leader = Num 1, userPlayer = [(Num 1, Some 0)]\<rparr>"

text \<open>After the pick from the draw pile: \<open>examplePicked\<close>.\<close>

definition examplePicked :: Game where
  "examplePicked =
     exampleDealt\<lparr>pileOfCards := [], pickedCard := Some (mkCard ''m'' 13), state := PilePicked\<rparr>"

text \<open>
  A game in the phase \<open>Burn\<close>: seat 0 is bound to user 1, whose turn it is, and the burn
  pile holds one card of rank 1.
\<close>

definition exampleBurn :: Game where
  "exampleBurn =
     exampleDealt
       \<lparr>players := (players exampleDealt)[0 := (players exampleDealt ! 0)\<lparr>ownerId := Num 1\<rparr>],
        burnedCards := [mkCard ''z'' 1], state := Burn\<rparr>"

text \<open>A picked card whose ability tag is none of the four known ones: \<open>exampleUnknown\<close>.\<close>

definition exampleUnknown :: Game where
  "exampleUnknown =
     examplePicked\<lparr>pickedCard := Some ((mkCard ''m'' 13)\<lparr>ability := UNKNOWN_ABILITY 9\<rparr>)\<rparr>"

text \<open>A payload that carries the user id \<open>u\<close> and nothing else.\<close>

definition examplePayload :: "number \<Rightarrow> UserActionPayload" where
  "examplePayload u =
     \<lparr>userId = u, playerId = UNDEFINED, cardId = [], otherPlayerId = UNDEFINED, otherCardId = []\<rparr>"

text \<open>
  A handler to stand for the phases whose classes are not among the sources: it accepts
  every action and changes nothing.
\<close>

definition exampleOthers :: "State \<Rightarrow> Game \<Rightarrow> Action \<Rightarrow> UserActionPayload option \<Rightarrow> result" where
  "exampleOthers s g a p = Ok g"

section \<open>Properties\<close>

lemma setState_other: "s \<noteq> RoundStart \<Longrightarrow> setState g s = Ok (g\<lparr>state := s\<rparr>)"
  by (simp add: setState_def)

lemma outcome_simps: "outcome (Ok g) = g" "outcome (Throw e g) = g"
  by (simp_all add: outcome_def)

lemmas bucket_defs =
  LEADER_BASED_ACTIONS_def USER_BASED_ACTION_def USER_TURN_BASED_ACTION_def
  INTERNAL_BASED_ACTION_def

subsection \<open>The internal start of a round\<close>

lemma validate_START_ROUND: "validateUsingActionBased g START_ROUND UNDEFINED = Inr True"
  by (simp add: validateUsingActionBased_def LEADER_BASED_ACTIONS_def USER_BASED_ACTION_def
      USER_TURN_BASED_ACTION_def INTERNAL_BASED_ACTION_def)

lemma setState_RoundStart: "setState g RoundStart = startRoundAction (g\<lparr>state := RoundStart\<rparr>)"
  by (simp add: setState_def validate_START_ROUND RoundStart_action_def)

text \<open>
  The two places where the definitions above spell out a call of the source: the
  \<^verbatim>\<open>setState\<close> that ends \<open>startRoundAction\<close>, and the \<^verbatim>\<open>this.action\<close> inside
  \<open>setState\<close>.
\<close>

lemma startRoundAction_setState:
  "startRoundAction g =
     (case distributeCardsAction g of
        Throw e g1 \<Rightarrow> Throw e g1
      | Ok g1 \<Rightarrow> setState (showTwoHandCardsAction g1) PickBurn)"
  by (cases "distributeCardsAction g") (simp_all add: startRoundAction_def setState_other)

lemma setState_RoundStart_action:
  "setState g RoundStart = action burnAction others (g\<lparr>state := RoundStart\<rparr>) START_ROUND None"
  by (simp add: setState_def action_def State_action_def payload_userId_def
      validate_START_ROUND)

subsection \<open>The validator\<close>

text \<open>
  C10. The action code \<open>BURN_ONE_HAND_CARD\<close> is in none of the validator's lists, so
  \<open>action\<close> rejects it for every game, every payload (with any user id or none) and
  whatever the phase handlers are: it throws \<^verbatim>\<open>InvalidAction\<close> before a handler is
  reached, and the game is as it was.
\<close>

theorem BURN_ONE_HAND_CARD_always_rejected:
  "action burnAction others g BURN_ONE_HAND_CARD p = Throw InvalidActionClass g"
  by (simp add: action_def validateUsingActionBased_def bucket_defs)

text \<open>
  C4. A turn-based action whose user id does not own the seat at the turn index is
  thrown out by \<open>action\<close> with the game unchanged (with \<^verbatim>\<open>InvalidAction\<close> when the
  turn indexes a seat, with the runtime's error when it indexes none), and so is a
  leader-based action whose user id is not the stored leader.
\<close>

theorem unauthorized_action_rejected:
  "(a \<in> set USER_TURN_BASED_ACTION \<and>
      (\<forall>t. turn g = Some t \<and> t < length (players g) \<longrightarrow>
           \<not> isOwner (players g ! t) (payload_userId p))
    \<longrightarrow> action burnAction others g a p =
          Throw (if \<exists>t. turn g = Some t \<and> t < length (players g)
                 then InvalidActionClass else TypeError) g)
   \<and> (a \<in> set LEADER_BASED_ACTIONS \<and> leader g \<noteq> payload_userId p
    \<longrightarrow> action burnAction others g a p = Throw InvalidActionClass g)"
proof (intro conjI impI)
  assume h: "a \<in> set USER_TURN_BASED_ACTION \<and>
      (\<forall>t. turn g = Some t \<and> t < length (players g) \<longrightarrow>
           \<not> isOwner (players g ! t) (payload_userId p))"
  then have a: "a \<notin> set LEADER_BASED_ACTIONS" "a \<notin> set USER_BASED_ACTION"
    by (auto simp: bucket_defs)
  show "action burnAction others g a p =
          Throw (if \<exists>t. turn g = Some t \<and> t < length (players g)
                 then InvalidActionClass else TypeError) g"
    using h a
    by (auto simp: action_def validateUsingActionBased_def isUserTurn_def split: option.splits)
next
  assume "a \<in> set LEADER_BASED_ACTIONS \<and> leader g \<noteq> payload_userId p"
  then show "action burnAction others g a p = Throw InvalidActionClass g"
    by (simp add: action_def validateUsingActionBased_def isLeaderUser_def)
qed

theorem unauthorized_action_rejected_witness:
  "PASS \<in> set USER_TURN_BASED_ACTION
   \<and> turn exampleDealt = Some 0
   \<and> \<not> isOwner (players exampleDealt ! 0) (Num 5)
   \<and> action Ok exampleOthers exampleDealt PASS (Some (examplePayload (Num 5))) =
       Throw InvalidActionClass exampleDealt
   \<and> turn exampleJoined = None
   \<and> action Ok exampleOthers exampleJoined PASS (Some (examplePayload (Num 5))) =
       Throw TypeError exampleJoined
   \<and> START_GAME \<in> set LEADER_BASED_ACTIONS
   \<and> leader exampleDealt \<noteq> Num 5
   \<and> action Ok exampleOthers exampleDealt START_GAME (Some (examplePayload (Num 5))) =
       Throw InvalidActionClass exampleDealt"
  using unauthorized_action_rejected
          [of PASS exampleDealt "Some (examplePayload (Num 5))" Ok exampleOthers]
        unauthorized_action_rejected
          [of PASS exampleJoined "Some (examplePayload (Num 5))" Ok exampleOthers]
        unauthorized_action_rejected
          [of START_GAME exampleDealt "Some (examplePayload (Num 5))" Ok exampleOthers]
  by (simp add: bucket_defs payload_userId_def isOwner_def examplePayload_def exampleDealt_def
      exampleJoined_def exampleGame_def)

subsection \<open>Picking\<close>

text \<open>
  C3. \<open>pickCardFromPileAction\<close> and \<open>pickCardFromBurnedAction\<close> move the top card of
  their pile into \<open>pickedCard\<close> and set the phase \<open>PilePicked\<close>, \<open>BurnedPicked\<close>; on
  an empty pile they throw and the game, its phase included, is as it was.
\<close>

theorem pick_from_pile_or_burned:
  "(pileOfCards g = c # r \<longrightarrow>
      pickCardFromPileAction g =
        Ok (g\<lparr>pileOfCards := r, pickedCard := Some c, state := PilePicked\<rparr>))
   \<and> (burnedCards g = c # r \<longrightarrow>
      pickCardFromBurnedAction g =
        Ok (g\<lparr>burnedCards := r, pickedCard := Some c, state := BurnedPicked\<rparr>))
   \<and> (pileOfCards g = [] \<longrightarrow>
      pickCardFromPileAction g = Throw (InvalidAction ''empty pile'') g)
   \<and> (burnedCards g = [] \<longrightarrow>
      pickCardFromBurnedAction g = Throw (InvalidAction ''empty pile'') g)"
  by (simp add: pickCardFromPileAction_def pickCardFromBurnedAction_def pick_def setState_other)

theorem pick_from_pile_or_burned_witness:
  "pileOfCards exampleDealt = [mkCard ''m'' 13]
   \<and> pickCardFromPileAction exampleDealt = Ok examplePicked
   \<and> burnedCards exampleDealt = []
   \<and> pickCardFromBurnedAction exampleDealt = Throw (InvalidAction ''empty pile'') exampleDealt
   \<and> pileOfCards examplePicked = []
   \<and> pickCardFromPileAction examplePicked = Throw (InvalidAction ''empty pile'') examplePicked
   \<and> burnedCards (exampleDealt\<lparr>burnedCards := [mkCard ''z'' 1]\<rparr>) = [mkCard ''z'' 1]
   \<and> pickCardFromBurnedAction (exampleDealt\<lparr>burnedCards := [mkCard ''z'' 1]\<rparr>) =
       Ok (exampleDealt\<lparr>burnedCards := [], pickedCard := Some (mkCard ''z'' 1),
                        state := BurnedPicked\<rparr>)"
  using pick_from_pile_or_burned [of exampleDealt "mkCard ''m'' 13" "[]"]
        pick_from_pile_or_burned [of examplePicked]
        pick_from_pile_or_burned
          [of "exampleDealt\<lparr>burnedCards := [mkCard ''z'' 1]\<rparr>" "mkCard ''z'' 1" "[]"]
  by (simp add: examplePicked_def exampleDealt_def)

subsection \<open>Burning a hand card\<close>

lemma getCard_mem: "getCard p cid = Some c \<Longrightarrow> c \<in> set (handCards p)"
  by (auto simp: getCard_def find_Some_iff)

text \<open>The branches of \<open>burnOneHandCardAction\<close>, one after the other.\<close>

lemma burnOne_unfold:
  "burnOneHandCardAction g u cid =
     (case burnedCards g of
        [] \<Rightarrow> Throw (InvalidAction ''Burned cards stack is empty'') g
      | t # r \<Rightarrow>
          (case userPlayer_get g u of
             None \<Rightarrow> Throw TypeError g
           | Some s \<Rightarrow>
               if s < length (players g) then
                 (case getCard (players g ! s) cid of
                    None \<Rightarrow> Throw TypeError g
                  | Some c \<Rightarrow>
                      Ok (if rank c = rank t
                          then (setHand g s (remove1 c (handCards (players g ! s))))
                                 \<lparr>burnedCards := c # t # r, state := EndRound\<rparr>
                          else (setHand g s (handCards (players g ! s) @ [t]))
                                 \<lparr>burnedCards := r, state := EndRound\<rparr>))
               else Throw TypeError g))"
  by (simp add: burnOneHandCardAction_def setState_other pick_def isEmpty_def seat_def topCard_def
      equalsRank_def put_def handRemove_def handAdd_def
      split: list.split option.split)

text \<open>
  C5. \<open>burnOneHandCardAction\<close> throws on an empty burn pile and leaves the game as it
  was. With a card on the burn pile, a seated user and a hand card of the given id: when
  the card's rank is the rank of the burn pile's top card, the card leaves the hand and
  becomes the top of the burn pile; when the ranks differ, the burn pile's top card leaves
  the pile and joins the hand, in which the named card stays. Either way the phase
  becomes \<open>EndRound\<close>, and nothing else changes.
\<close>

theorem burn_legality:
  "(burnedCards g = [] \<longrightarrow>
      burnOneHandCardAction g u cid = Throw (InvalidAction ''Burned cards stack is empty'') g)
   \<and> (burnedCards g = t # r \<and> userPlayer_get g u = Some s \<and> s < length (players g)
        \<and> getCard (players g ! s) cid = Some c \<longrightarrow>
        c \<in> set (handCards (players g ! s))
        \<and> burnOneHandCardAction g u cid =
            Ok (if rank c = rank t
                then g\<lparr>players := (players g)
                         [s := (players g ! s)\<lparr>handCards := remove1 c (handCards (players g ! s))\<rparr>],
                       burnedCards := c # t # r, state := EndRound\<rparr>
                else g\<lparr>players := (players g)
                         [s := (players g ! s)\<lparr>handCards := handCards (players g ! s) @ [t]\<rparr>],
                       burnedCards := r, state := EndRound\<rparr>))"
  by (auto simp add: burnOne_unfold setHand_def dest: getCard_mem)

theorem burn_legality_witness:
  "burnedCards exampleDealt = []
   \<and> burnOneHandCardAction exampleDealt (Num 1) ''a'' =
       Throw (InvalidAction ''Burned cards stack is empty'') exampleDealt
   \<and> burnedCards exampleBurn = [mkCard ''z'' 1] \<and> userPlayer_get exampleBurn (Num 1) = Some 0
   \<and> 0 < length (players exampleBurn)
   \<and> getCard (players exampleBurn ! 0) ''a'' = Some (mkCard ''a'' 1)
   \<and> burnOneHandCardAction exampleBurn (Num 1) ''a'' =
       Ok (exampleBurn
             \<lparr>players := (players exampleBurn)
                [0 := (players exampleBurn ! 0)
                   \<lparr>handCards := [mkCard ''b'' 2, mkCard ''c'' 3, mkCard ''d'' 4]\<rparr>],
              burnedCards := [mkCard ''a'' 1, mkCard ''z'' 1], state := EndRound\<rparr>)
   \<and> getCard (players exampleBurn ! 0) ''b'' = Some (mkCard ''b'' 2)
   \<and> burnOneHandCardAction exampleBurn (Num 1) ''b'' =
       Ok (exampleBurn
             \<lparr>players := (players exampleBurn)
                [0 := (players exampleBurn ! 0)
                   \<lparr>handCards := [mkCard ''a'' 1, mkCard ''b'' 2, mkCard ''c'' 3,
                                   mkCard ''d'' 4, mkCard ''z'' 1]\<rparr>],
              burnedCards := [], state := EndRound\<rparr>)"
  using burn_legality [where g = exampleDealt and u = "Num 1" and cid = "''a''"]
        burn_legality [where g = exampleBurn and t = "mkCard ''z'' 1" and r = "[]"
              and u = "Num 1" and s = 0 and cid = "''a''" and c = "mkCard ''a'' 1"]
        burn_legality [where g = exampleBurn and t = "mkCard ''z'' 1" and r = "[]"
              and u = "Num 1" and s = 0 and cid = "''b''" and c = "mkCard ''b'' 2"]
  by (simp add: exampleBurn_def exampleDealt_def userPlayer_get_def getCard_def mkCard_def)




subsection \<open>Joining\<close>

text \<open>
  C7, at a concrete game: after user 1 has joined seat 0, the join of user 2 to the same
  seat 0 is accepted, and both users are bound to seat 0. \<open>isValidPlayer\<close> checks the
  range of the index only.
\<close>

theorem join_occupied_seat_accepted:
  "joinAsPlayerAction exampleGame (Num 1) (Num 0) = Ok exampleJoined
   \<and> joinAsPlayerAction exampleJoined (Num 2) (Num 0) =
       Ok (exampleJoined\<lparr>userPlayer := [(Num 1, Some 0), (Num 2, Some 0)]\<rparr>)
   \<and> action Ok exampleOthers exampleJoined JOIN_AS_PLAYER
        (Some ((examplePayload (Num 2))\<lparr>playerId := Num 0\<rparr>)) =
       Ok (exampleJoined\<lparr>userPlayer := [(Num 1, Some 0), (Num 2, Some 0)]\<rparr>)"
  by (simp add: action_def validateUsingActionBased_def bucket_defs payload_userId_def
      examplePayload_def joinAsPlayerAction_def isJoinedAsPlayer_def isValidPlayer_def isFull_def
      numberOfPlayers_def setLeader_def players_at_def exampleJoined_def exampleGame_def)

subsection \<open>The exchanges\<close>

text \<open>
  C6. \<open>exchangePickWithHandAction\<close> and \<open>exchangeHandWithOther\<close>, when they return,
  have changed the phase to \<open>Burn\<close> and nothing else: no hand, not \<open>pickedCard\<close>, no
  binding of a user to a seat. They return whenever the user has a seat (and, for the
  exchange with another seat, the other index names a different seat), whatever cards
  are named.
\<close>

theorem exchange_changes_phase_only:
  "(exchangePickWithHandAction g u cid = Ok g' \<longrightarrow> g' = g\<lparr>state := Burn\<rparr>)
   \<and> (exchangeHandWithOther g u cid otherPid ocid = Ok g' \<longrightarrow> g' = g\<lparr>state := Burn\<rparr>)
   \<and> (userPlayer_get g u = Some s \<and> s < length (players g) \<longrightarrow>
        exchangePickWithHandAction g u cid = Ok (g\<lparr>state := Burn\<rparr>))
   \<and> (userPlayer_get g u = Some s \<and> s < length (players g) \<and> players_at g otherPid = Some t
        \<and> s \<noteq> t \<longrightarrow>
        exchangeHandWithOther g u cid otherPid ocid = Ok (g\<lparr>state := Burn\<rparr>))"
  by (auto simp: exchangePickWithHandAction_def exchangeHandWithOther_def setState_other seat_def
        isValidPlayer_def players_at_def Let_def
      split: option.splits if_splits number.splits)

theorem exchange_changes_phase_only_witness:
  "userPlayer_get examplePicked (Num 1) = Some 0 \<and> 0 < length (players examplePicked)
   \<and> players_at examplePicked (Num 1) = Some 1 \<and> (0::nat) \<noteq> 1
   \<and> exchangePickWithHandAction examplePicked (Num 1) ''a'' = Ok (examplePicked\<lparr>state := Burn\<rparr>)
   \<and> exchangeHandWithOther examplePicked (Num 1) ''a'' (Num 1) ''e'' =
       Ok (examplePicked\<lparr>state := Burn\<rparr>)
   \<and> getCard (players examplePicked ! 0) ''a'' = Some (mkCard ''a'' 1)
   \<and> pickedCard examplePicked = Some (mkCard ''m'' 13)
   \<and> getCard (players examplePicked ! 1) ''e'' = Some (mkCard ''e'' 5)"
  using exchange_changes_phase_only
          [where g = examplePicked and u = "Num 1" and s = 0 and cid = "''a''"
             and otherPid = "Num 1" and t = 1 and ocid = "''e''"
             and g' = "examplePicked\<lparr>state := Burn\<rparr>"]
  by (simp add: userPlayer_get_def players_at_def getCard_def examplePicked_def exampleDealt_def
      mkCard_def)

subsection \<open>What a failing call leaves behind\<close>

lemma validator_throw_unchanged:
  "validateUsingActionBased g a (payload_userId p) \<noteq> Inr True \<longrightarrow>
     (\<exists>e. action burnAction others g a p = Throw e g)"
  by (cases "validateUsingActionBased g a (payload_userId p)") (auto simp: action_def)

lemma join_throw_unchanged: "joinAsPlayerAction g u pid = Throw e g' \<longrightarrow> g' = g"
  by (simp add: joinAsPlayerAction_def Let_def)

lemma pickPile_throw_unchanged: "pickCardFromPileAction g = Throw e g' \<longrightarrow> g' = g"
  by (simp add: pickCardFromPileAction_def pick_def setState_other split: list.split)

lemma pickBurned_throw_unchanged: "pickCardFromBurnedAction g = Throw e g' \<longrightarrow> g' = g"
  by (simp add: pickCardFromBurnedAction_def pick_def setState_other split: list.split)

lemma burnOne_throw_unchanged: "burnOneHandCardAction g u cid = Throw e g' \<longrightarrow> g' = g"
  by (simp add: burnOne_unfold split: list.split option.split)

lemma exchangePick_throw_unchanged: "exchangePickWithHandAction g u cid = Throw e g' \<longrightarrow> g' = g"
  by (simp add: exchangePickWithHandAction_def setState_other split: option.split)

lemma exchangeOther_throw_unchanged: "exchangeHandWithOther g u cid otherPid ocid = Throw e g' \<longrightarrow> g' = g"
  by (simp add: exchangeHandWithOther_def setState_other Let_def split: option.split)

lemma showOne_throw_unchanged: "showOneHandCardAction g u cid = Throw e g' \<longrightarrow> g' = g"
  by (simp add: showOneHandCardAction_def setState_other split: option.split)

lemma showOther_throw_unchanged: "showOneOtherHandCardAction g u otherPid ocid = Throw e g' \<longrightarrow> g' = g"
  by (simp add: showOneOtherHandCardAction_def setState_other split: option.split)

lemma phase_throw_unchanged:
  "(Burn_action burnAction g a p = Throw e g' \<and> a \<noteq> BURN_CARD \<longrightarrow> g' = g)
   \<and> (EndOfGame_action g a p = Throw e g' \<longrightarrow> g' = g)"
  by (cases a) (simp_all add: Burn_action_def EndOfGame_action_def)

lemma startGame_throw_unchanged: "isGameStarted g \<and> startGameAction sw r g = Throw e g' \<longrightarrow> g' = g"
  by (simp add: startGameAction_def)

lemma useAbility_throw:
  "useAbilityAction g = Throw e g' \<longrightarrow>
     g' = g \<or> (\<exists>c n. pickedCard g = Some c \<and> ability c = UNKNOWN_ABILITY n
                  \<and> g' = g\<lparr>pickedCard := Some (c\<lparr>used := True\<rparr>)\<rparr>)"
  by (simp add: useAbilityAction_def getAbility_def markAsUsed_def setState_other Let_def
      split: option.split CardAbility.split)

lemma useAbility_unknown_tag:
  "pickedCard g = Some c \<and> ability c = UNKNOWN_ABILITY n \<longrightarrow>
     useAbilityAction g =
       Throw (InvalidAction ''Unknown ability'') (g\<lparr>pickedCard := Some (c\<lparr>used := True\<rparr>)\<rparr>)"
  by (simp add: useAbilityAction_def getAbility_def markAsUsed_def)

lemma useAbility_no_card: "pickedCard g = None \<longrightarrow> useAbilityAction g = Throw TypeError g"
  by (simp add: useAbilityAction_def)

text \<open>
  C2, as the code has it. A call that the validator does not pass is thrown out by
  \<open>action\<close> with the game unchanged, and a throwing join, pick, \<open>burnOneHandCardAction\<close>,
  exchange, show, rejection by the phases \<open>Burn\<close> and \<open>EndOfGame\<close>, or start of a started
  game leaves the game unchanged. \<open>useAbilityAction\<close> marks the picked card used before
  it looks at the ability: on an unrecognized tag it throws "Unknown ability" and leaves
  the game with the picked card marked used and nothing else changed; without a picked
  card it throws and leaves the game unchanged; and whenever it throws, it is one of
  these two cases.
\<close>

theorem failing_call_state:
  "(validateUsingActionBased g a (payload_userId p) \<noteq> Inr True \<longrightarrow>
      (\<exists>e. action burnAction others g a p = Throw e g))
   \<and> (joinAsPlayerAction g u pid = Throw e g' \<longrightarrow> g' = g)
   \<and> (pickCardFromPileAction g = Throw e g' \<longrightarrow> g' = g)
   \<and> (pickCardFromBurnedAction g = Throw e g' \<longrightarrow> g' = g)
   \<and> (burnOneHandCardAction g u cid = Throw e g' \<longrightarrow> g' = g)
   \<and> (exchangePickWithHandAction g u cid = Throw e g' \<longrightarrow> g' = g)
   \<and> (exchangeHandWithOther g u cid otherPid ocid = Throw e g' \<longrightarrow> g' = g)
   \<and> (showOneHandCardAction g u cid = Throw e g' \<longrightarrow> g' = g)
   \<and> (showOneOtherHandCardAction g u otherPid ocid = Throw e g' \<longrightarrow> g' = g)
   \<and> (Burn_action burnAction g a p = Throw e g' \<and> a \<noteq> BURN_CARD \<longrightarrow> g' = g)
   \<and> (EndOfGame_action g a p = Throw e g' \<longrightarrow> g' = g)
   \<and> (isGameStarted g \<and> startGameAction sw r g = Throw e g' \<longrightarrow> g' = g)
   \<and> (useAbilityAction g = Throw e g' \<longrightarrow>
        g' = g \<or> (\<exists>c n. pickedCard g = Some c \<and> ability c = UNKNOWN_ABILITY n
                     \<and> g' = g\<lparr>pickedCard := Some (c\<lparr>used := True\<rparr>)\<rparr>))
   \<and> (pickedCard g = Some c \<and> ability c = UNKNOWN_ABILITY n \<longrightarrow>
        useAbilityAction g =
          Throw (InvalidAction ''Unknown ability'')
            (g\<lparr>pickedCard := Some (c\<lparr>used := True\<rparr>)\<rparr>))
   \<and> (pickedCard g = None \<longrightarrow> useAbilityAction g = Throw TypeError g)"
  using validator_throw_unchanged [of g a p burnAction others]
    join_throw_unchanged [of g u pid e g']
    pickPile_throw_unchanged [of g e g']
    pickBurned_throw_unchanged [of g e g']
    burnOne_throw_unchanged [of g u cid e g']
    exchangePick_throw_unchanged [of g u cid e g']
    exchangeOther_throw_unchanged [of g u cid otherPid ocid e g']
    showOne_throw_unchanged [of g u cid e g']
    showOther_throw_unchanged [of g u otherPid ocid e g']
    phase_throw_unchanged [of burnAction g a p e g']
    startGame_throw_unchanged [of g sw r e g']
    useAbility_throw [of g e g']
    useAbility_unknown_tag [of g c n]
    useAbility_no_card [of g]
  by blast

theorem failing_call_state_witness:
  "validateUsingActionBased exampleDealt PASS (payload_userId (Some (examplePayload (Num 5))))
     \<noteq> Inr True
   \<and> action Ok exampleOthers exampleDealt PASS (Some (examplePayload (Num 5))) =
       Throw InvalidActionClass exampleDealt
   \<and> joinAsPlayerAction exampleJoined (Num 1) (Num 1) =
       Throw (InvalidAction ''Player already joined'') exampleJoined
   \<and> joinAsPlayerAction exampleJoined (Num 2) (Num 3) =
       Throw (InvalidAction ''Invalid position or already taken'') exampleJoined
   \<and> pickCardFromPileAction examplePicked = Throw (InvalidAction ''empty pile'') examplePicked
   \<and> pickCardFromBurnedAction exampleDealt = Throw (InvalidAction ''empty pile'') exampleDealt
   \<and> burnOneHandCardAction exampleDealt (Num 1) ''a'' =
       Throw (InvalidAction ''Burned cards stack is empty'') exampleDealt
   \<and> exchangePickWithHandAction examplePicked (Num 9) ''a'' = Throw TypeError examplePicked
   \<and> showOneHandCardAction examplePicked (Num 9) ''a'' = Throw TypeError examplePicked
   \<and> Burn_action Ok exampleBurn PASS None = Throw (InvalidAction defaultMessage) exampleBurn
   \<and> PASS \<noteq> BURN_CARD
   \<and> EndOfGame_action exampleBurn PASS None = Throw (InvalidAction defaultMessage) exampleBurn
   \<and> exchangeHandWithOther examplePicked (Num 1) ''a'' (Num 0) ''b'' =
       Throw (InvalidAction ''Changing card with your self is not allowed'') examplePicked
   \<and> showOneOtherHandCardAction examplePicked (Num 1) (Num 3) ''a'' =
       Throw (InvalidAction ''Pick valid card'') examplePicked
   \<and> isGameStarted exampleDealt
   \<and> startGameAction [] 0 exampleDealt = Throw (InvalidAction ''Game already started'') exampleDealt
   \<and> pickedCard exampleDealt = None
   \<and> useAbilityAction exampleDealt = Throw TypeError exampleDealt
   \<and> pickedCard exampleUnknown = Some ((mkCard ''m'' 13)\<lparr>ability := UNKNOWN_ABILITY 9\<rparr>)
   \<and> useAbilityAction exampleUnknown =
       Throw (InvalidAction ''Unknown ability'')
         (exampleUnknown\<lparr>pickedCard :=
            Some ((mkCard ''m'' 13)\<lparr>ability := UNKNOWN_ABILITY 9, used := True\<rparr>)\<rparr>)"
proof -
  have v: "validateUsingActionBased exampleDealt PASS
             (payload_userId (Some (examplePayload (Num 5)))) \<noteq> Inr True"
    by (simp add: validateUsingActionBased_def bucket_defs isUserTurn_def isOwner_def
        payload_userId_def examplePayload_def exampleDealt_def)
  have a: "action Ok exampleOthers exampleDealt PASS (Some (examplePayload (Num 5))) =
       Throw InvalidActionClass exampleDealt"
    by (simp add: action_def validateUsingActionBased_def bucket_defs isUserTurn_def isOwner_def
        payload_userId_def examplePayload_def exampleDealt_def)
  have j: "joinAsPlayerAction exampleJoined (Num 1) (Num 1) =
       Throw (InvalidAction ''Player already joined'') exampleJoined"
    "joinAsPlayerAction exampleJoined (Num 2) (Num 3) =
       Throw (InvalidAction ''Invalid position or already taken'') exampleJoined"
    by (simp_all add: joinAsPlayerAction_def isJoinedAsPlayer_def isValidPlayer_def
        exampleJoined_def exampleGame_def)
  have b: "pickCardFromBurnedAction exampleDealt = Throw (InvalidAction ''empty pile'') exampleDealt"
    "burnOneHandCardAction exampleDealt (Num 1) ''a'' =
       Throw (InvalidAction ''Burned cards stack is empty'') exampleDealt"
    "isGameStarted exampleDealt"
    "startGameAction [] 0 exampleDealt = Throw (InvalidAction ''Game already started'') exampleDealt"
    by (simp_all add: pickCardFromBurnedAction_def pick_def burnOne_unfold startGameAction_def
        exampleDealt_def)
  have n: "pickedCard exampleDealt = None"
    by (simp add: exampleDealt_def)
  have "pickedCard exampleDealt = None \<longrightarrow>
          useAbilityAction exampleDealt = Throw TypeError exampleDealt"
    by (rule failing_call_state
          [where g = exampleDealt,
            THEN conjunct2, THEN conjunct2, THEN conjunct2, THEN conjunct2, THEN conjunct2,
            THEN conjunct2, THEN conjunct2, THEN conjunct2, THEN conjunct2, THEN conjunct2,
            THEN conjunct2, THEN conjunct2, THEN conjunct2, THEN conjunct2])
  with n have t: "useAbilityAction exampleDealt = Throw TypeError exampleDealt"
    by simp
  have x: "exchangeHandWithOther examplePicked (Num 1) ''a'' (Num 0) ''b'' =
       Throw (InvalidAction ''Changing card with your self is not allowed'') examplePicked"
    "showOneOtherHandCardAction examplePicked (Num 1) (Num 3) ''a'' =
       Throw (InvalidAction ''Pick valid card'') examplePicked"
    by (simp_all add: exchangeHandWithOther_def showOneOtherHandCardAction_def isValidPlayer_def
        userPlayer_get_def players_at_def Let_def examplePicked_def exampleDealt_def)
  have y: "pickCardFromPileAction examplePicked = Throw (InvalidAction ''empty pile'') examplePicked"
    "exchangePickWithHandAction examplePicked (Num 9) ''a'' = Throw TypeError examplePicked"
    "showOneHandCardAction examplePicked (Num 9) ''a'' = Throw TypeError examplePicked"
    by (simp_all add: pickCardFromPileAction_def pick_def exchangePickWithHandAction_def
        showOneHandCardAction_def seat_def userPlayer_get_def examplePicked_def exampleDealt_def)
  have z: "Burn_action Ok exampleBurn PASS None = Throw (InvalidAction defaultMessage) exampleBurn"
    "EndOfGame_action exampleBurn PASS None = Throw (InvalidAction defaultMessage) exampleBurn"
    by (simp_all add: Burn_action_def EndOfGame_action_def)
  have k: "pickedCard exampleUnknown = Some ((mkCard ''m'' 13)\<lparr>ability := UNKNOWN_ABILITY 9\<rparr>)"
    "ability ((mkCard ''m'' 13)\<lparr>ability := UNKNOWN_ABILITY 9\<rparr>) = UNKNOWN_ABILITY 9"
    by (simp_all add: exampleUnknown_def)
  have "pickedCard exampleUnknown = Some ((mkCard ''m'' 13)\<lparr>ability := UNKNOWN_ABILITY 9\<rparr>)
          \<and> ability ((mkCard ''m'' 13)\<lparr>ability := UNKNOWN_ABILITY 9\<rparr>) = UNKNOWN_ABILITY 9
        \<longrightarrow> useAbilityAction exampleUnknown =
       Throw (InvalidAction ''Unknown ability'')
         (exampleUnknown\<lparr>pickedCard :=
            Some ((mkCard ''m'' 13)\<lparr>ability := UNKNOWN_ABILITY 9\<rparr>\<lparr>used := True\<rparr>)\<rparr>)"
    by (rule failing_call_state
          [where g = exampleUnknown
             and c = "(mkCard ''m'' 13)\<lparr>ability := UNKNOWN_ABILITY 9\<rparr>" and n = 9,
            THEN conjunct2, THEN conjunct2, THEN conjunct2, THEN conjunct2, THEN conjunct2,
            THEN conjunct2, THEN conjunct2, THEN conjunct2, THEN conjunct2, THEN conjunct2,
            THEN conjunct2, THEN conjunct2, THEN conjunct2, THEN conjunct1])
  with k have "useAbilityAction exampleUnknown =
       Throw (InvalidAction ''Unknown ability'')
         (exampleUnknown\<lparr>pickedCard :=
            Some ((mkCard ''m'' 13)\<lparr>ability := UNKNOWN_ABILITY 9\<rparr>\<lparr>used := True\<rparr>)\<rparr>)"
    by (simp only: simp_thms)
  then have u: "useAbilityAction exampleUnknown =
       Throw (InvalidAction ''Unknown ability'')
         (exampleUnknown\<lparr>pickedCard :=
            Some ((mkCard ''m'' 13)\<lparr>ability := UNKNOWN_ABILITY 9, used := True\<rparr>)\<rparr>)"
    by (simp add: mkCard_def)
  have "validateUsingActionBased exampleDealt PASS
             (payload_userId (Some (examplePayload (Num 5)))) \<noteq> Inr True \<longrightarrow>
        (\<exists>e. action Ok exampleOthers exampleDealt PASS (Some (examplePayload (Num 5))) =
          Throw e exampleDealt)"
    by (rule failing_call_state
          [where g = exampleDealt and a = PASS and p = "Some (examplePayload (Num 5))"
             and burnAction = Ok and others = exampleOthers, THEN conjunct1])
  with v a j b x y z u n t k show ?thesis by simp
qed

text \<open>
  C2 as the claim states it fails at \<open>exampleUnknown\<close>, where the picked card carries an
  unrecognized ability tag: \<open>useAbilityAction\<close> throws "Unknown ability", and the game it
  leaves differs from the game it was called on, the picked card's used flag having
  turned from false to true.
\<close>

theorem useAbility_unknown_tag_mutates:
  "useAbilityAction exampleUnknown =
     Throw (InvalidAction ''Unknown ability'')
       (exampleUnknown\<lparr>pickedCard :=
          Some ((mkCard ''m'' 13)\<lparr>ability := UNKNOWN_ABILITY 9, used := True\<rparr>)\<rparr>)
   \<and> used (the (pickedCard exampleUnknown)) = False
   \<and> exampleUnknown\<lparr>pickedCard :=
          Some ((mkCard ''m'' 13)\<lparr>ability := UNKNOWN_ABILITY 9, used := True\<rparr>)\<rparr> \<noteq> exampleUnknown"
  by (simp add: useAbilityAction_def getAbility_def markAsUsed_def exampleUnknown_def examplePicked_def
      exampleDealt_def mkCard_def)

subsection \<open>Dealing\<close>

lemma dealHand_enough:
  "n \<le> length d \<Longrightarrow>
   dealHand n d p = (drop n d, p\<lparr>handCards := handCards p @ take n d\<rparr>, True)"
  by (induction n d p rule: dealHand.induct) (simp_all add: addCardToHand_def handAdd_def)

lemma dealPlayers_enough:
  "DEFAULT_NUMBER_OF_CARDS_PER_HAND * length ps \<le> length d \<Longrightarrow>
   \<exists>ps'. dealPlayers d ps = (drop (DEFAULT_NUMBER_OF_CARDS_PER_HAND * length ps) d, ps', True)
     \<and> length ps' = length ps
     \<and> (\<forall>i<length ps. ps' ! i =
           (ps ! i)\<lparr>handCards := handCards (ps ! i) @
              take DEFAULT_NUMBER_OF_CARDS_PER_HAND (drop (DEFAULT_NUMBER_OF_CARDS_PER_HAND * i) d)\<rparr>)"
proof (induction ps arbitrary: d)
  case Nil
  then show ?case by simp
next
  case (Cons p ps)
  let ?k = DEFAULT_NUMBER_OF_CARDS_PER_HAND
  from Cons.prems have k: "?k \<le> length d" and rest: "?k * length ps \<le> length (drop ?k d)"
    by simp_all
  from Cons.IH [OF rest] obtain ps2 where
    r: "dealPlayers (drop ?k d) ps = (drop (?k * length ps) (drop ?k d), ps2, True)"
    and l: "length ps2 = length ps"
    and n: "\<forall>i<length ps. ps2 ! i =
           (ps ! i)\<lparr>handCards := handCards (ps ! i) @ take ?k (drop (?k * i) (drop ?k d))\<rparr>"
    by blast
  let ?p1 = "p\<lparr>handCards := handCards p @ take ?k d\<rparr>"
  have d: "dealPlayers d (p # ps) = (drop (?k * length (p # ps)) d, ?p1 # ps2, True)"
    by (simp add: dealHand_enough [OF k] r add.commute)
  have "(?p1 # ps2) ! i =
          ((p # ps) ! i)\<lparr>handCards := handCards ((p # ps) ! i) @ take ?k (drop (?k * i) d)\<rparr>"
    if "i < length (p # ps)" for i
  proof (cases i)
    case 0
    then show ?thesis by simp
  next
    case (Suc j)
    with that n show ?thesis by (simp add: add.commute)
  qed
  with d l show ?case by simp
qed

lemma deckToPile_rev: "deckToPile d pile = rev d @ pile"
  by (induction d arbitrary: pile) (simp_all add: put_def)

text \<open>
  C8, as the code has it. When the deck holds at least
  \<open>DEFAULT_NUMBER_OF_CARDS_PER_HAND\<close> cards for every seat of the array, the start of a
  round returns, and then every seat of the array, whether a user sits there or not, has
  received that many cards, seat \<open>i\<close> the deck's cards from position \<open>4 * i\<close> on, in seat
  order; every remaining card of the deck is on the draw pile (the last of the deck on
  top), the deck is empty, the phase is \<open>PickBurn\<close>, and nothing else has changed.
\<close>

theorem deal_every_seat:
  assumes "DEFAULT_NUMBER_OF_CARDS_PER_HAND * length (players g) \<le> length (deck g)"
  shows "\<exists>ps'. startRoundAction g =
           Ok (g\<lparr>players := ps', deck := [],
                 pileOfCards :=
                   rev (drop (DEFAULT_NUMBER_OF_CARDS_PER_HAND * length (players g)) (deck g))
                   @ pileOfCards g,
                 state := PickBurn\<rparr>)
         \<and> length ps' = length (players g)
         \<and> (\<forall>i<length (players g).
               ps' ! i =
                 (players g ! i)\<lparr>handCards := handCards (players g ! i) @
                    take DEFAULT_NUMBER_OF_CARDS_PER_HAND
                      (drop (DEFAULT_NUMBER_OF_CARDS_PER_HAND * i) (deck g))\<rparr>
               \<and> length (take DEFAULT_NUMBER_OF_CARDS_PER_HAND
                      (drop (DEFAULT_NUMBER_OF_CARDS_PER_HAND * i) (deck g))) =
                   DEFAULT_NUMBER_OF_CARDS_PER_HAND)"
proof -
  let ?k = DEFAULT_NUMBER_OF_CARDS_PER_HAND
  from dealPlayers_enough [OF assms] obtain ps' where
    r: "dealPlayers (deck g) (players g) = (drop (?k * length (players g)) (deck g), ps', True)"
    and l: "length ps' = length (players g)"
    and n: "\<forall>i<length (players g). ps' ! i =
               (players g ! i)\<lparr>handCards := handCards (players g ! i) @
                  take ?k (drop (?k * i) (deck g))\<rparr>"
    by blast
  have s: "startRoundAction g =
           Ok (g\<lparr>players := ps', deck := [],
                 pileOfCards := rev (drop (?k * length (players g)) (deck g)) @ pileOfCards g,
                 state := PickBurn\<rparr>)"
    by (simp add: startRoundAction_def distributeCardsAction_def r deckToPile_rev
        showTwoHandCardsAction_def)
  have "length (take ?k (drop (?k * i) (deck g))) = ?k" if "i < length (players g)" for i
  proof -
    from that have "?k * Suc i \<le> ?k * length (players g)"
      by (intro mult_le_mono2) simp
    with assms have "?k * i + ?k \<le> length (deck g)"
      by simp
    then show ?thesis by simp
  qed
  with s l n show ?thesis by blast
qed

lemma ex_join: "joinAsPlayerAction exampleGame (Num 1) (Num 0) = Ok exampleJoined"
  by (simp add: joinAsPlayerAction_def isJoinedAsPlayer_def isValidPlayer_def isFull_def
      numberOfPlayers_def setLeader_def players_at_def exampleJoined_def exampleGame_def)

lemma ex_start: "startGameAction [] 0 exampleJoined = Ok exampleDealt"
  by (simp add: startGameAction_def selectFirstTurnAction_def setState_RoundStart
      startRoundAction_def distributeCardsAction_def showTwoHandCardsAction_def
      dealHand_enough DEFAULT_NUMBER_OF_CARDS_PER_HAND_def put_def
      exampleJoined_def exampleGame_def exampleDealt_def exampleCards_def newPlayer_def)

lemma ex_pick: "pickCardFromPileAction exampleDealt = Ok examplePicked"
  by (simp add: pickCardFromPileAction_def pick_def setState_other examplePicked_def exampleDealt_def)

theorem deal_every_seat_witness:
  "DEFAULT_NUMBER_OF_CARDS_PER_HAND * length (players exampleJoined) \<le> length (deck exampleJoined)
   \<and> (\<exists>ps'. startRoundAction exampleJoined =
           Ok (exampleJoined\<lparr>players := ps', deck := [], pileOfCards := [mkCard ''m'' 13],
                 state := PickBurn\<rparr>)
         \<and> length ps' = 3
         \<and> handCards (ps' ! 0) = [mkCard ''a'' 1, mkCard ''b'' 2, mkCard ''c'' 3, mkCard ''d'' 4]
         \<and> handCards (ps' ! 1) = [mkCard ''e'' 5, mkCard ''f'' 6, mkCard ''g'' 7, mkCard ''h'' 8]
         \<and> handCards (ps' ! 2) = [mkCard ''i'' 9, mkCard ''j'' 10, mkCard ''k'' 11, mkCard ''l'' 12])"
proof -
  have h: "DEFAULT_NUMBER_OF_CARDS_PER_HAND * length (players exampleJoined)
            \<le> length (deck exampleJoined)"
    by (simp add: DEFAULT_NUMBER_OF_CARDS_PER_HAND_def exampleJoined_def exampleGame_def
        exampleCards_def)
  from deal_every_seat [OF h] obtain ps' where
    r: "startRoundAction exampleJoined =
           Ok (exampleJoined\<lparr>players := ps', deck := [],
                 pileOfCards :=
                   rev (drop (DEFAULT_NUMBER_OF_CARDS_PER_HAND * length (players exampleJoined))
                     (deck exampleJoined)) @ pileOfCards exampleJoined,
                 state := PickBurn\<rparr>)"
    and l: "length ps' = length (players exampleJoined)"
    and n: "\<forall>i<length (players exampleJoined). ps' ! i =
               (players exampleJoined ! i)\<lparr>handCards := handCards (players exampleJoined ! i) @
                  take DEFAULT_NUMBER_OF_CARDS_PER_HAND
                    (drop (DEFAULT_NUMBER_OF_CARDS_PER_HAND * i) (deck exampleJoined))\<rparr>"
    by blast
  have p: "rev (drop (DEFAULT_NUMBER_OF_CARDS_PER_HAND * length (players exampleJoined))
                     (deck exampleJoined)) @ pileOfCards exampleJoined = [mkCard ''m'' 13]"
    by (simp add: DEFAULT_NUMBER_OF_CARDS_PER_HAND_def exampleJoined_def exampleGame_def
        exampleCards_def)
  have len: "length (players exampleJoined) = 3"
    by (simp add: exampleJoined_def exampleGame_def)
  from n have "ps' ! 0 = (players exampleJoined ! 0)\<lparr>handCards := handCards (players exampleJoined ! 0) @
                  take DEFAULT_NUMBER_OF_CARDS_PER_HAND
                    (drop (DEFAULT_NUMBER_OF_CARDS_PER_HAND * 0) (deck exampleJoined))\<rparr>"
    and "ps' ! 1 = (players exampleJoined ! 1)\<lparr>handCards := handCards (players exampleJoined ! 1) @
                  take DEFAULT_NUMBER_OF_CARDS_PER_HAND
                    (drop (DEFAULT_NUMBER_OF_CARDS_PER_HAND * 1) (deck exampleJoined))\<rparr>"
    and "ps' ! 2 = (players exampleJoined ! 2)\<lparr>handCards := handCards (players exampleJoined ! 2) @
                  take DEFAULT_NUMBER_OF_CARDS_PER_HAND
                    (drop (DEFAULT_NUMBER_OF_CARDS_PER_HAND * 2) (deck exampleJoined))\<rparr>"
    by (simp_all add: len)
  then have hs: "handCards (ps' ! 0) = [mkCard ''a'' 1, mkCard ''b'' 2, mkCard ''c'' 3, mkCard ''d'' 4]"
    "handCards (ps' ! 1) = [mkCard ''e'' 5, mkCard ''f'' 6, mkCard ''g'' 7, mkCard ''h'' 8]"
    "handCards (ps' ! 2) = [mkCard ''i'' 9, mkCard ''j'' 10, mkCard ''k'' 11, mkCard ''l'' 12]"
    by (simp_all add: DEFAULT_NUMBER_OF_CARDS_PER_HAND_def exampleJoined_def exampleGame_def
        exampleCards_def newPlayer_def)
  from r p l len hs h show ?thesis by auto
qed

text \<open>
  C8 as the claim states it fails at \<open>exampleJoined\<close>, where user 1 sits on seat 0 and
  nobody on the seats 1 and 2: after the start of the game (and after
  \<open>startRoundAction\<close> alone) the same single user is seated, and each of the three
  seats holds four cards.
\<close>

theorem deal_reaches_empty_seats:
  "map snd (userPlayer exampleJoined) = [Some 0]
   \<and> startGameAction [] 0 exampleJoined = Ok exampleDealt
   \<and> startRoundAction exampleJoined = Ok (exampleDealt\<lparr>turn := None, isGameStarted := False\<rparr>)
   \<and> map snd (userPlayer exampleDealt) = [Some 0]
   \<and> map (\<lambda>p. length (handCards p)) (players exampleDealt) = [4, 4, 4]"
proof -
  have "startRoundAction exampleJoined = Ok (exampleDealt\<lparr>turn := None, isGameStarted := False\<rparr>)"
    by (simp add: startRoundAction_def distributeCardsAction_def showTwoHandCardsAction_def
        dealHand_enough DEFAULT_NUMBER_OF_CARDS_PER_HAND_def put_def
        exampleJoined_def exampleGame_def exampleDealt_def exampleCards_def newPlayer_def)
  then show ?thesis
    by (simp add: ex_start) (simp add: exampleJoined_def exampleGame_def exampleDealt_def)
qed

subsection \<open>Card conservation\<close>

lemma mset_concat_update:
  "i < length xs \<Longrightarrow>
   mset (concat (map f (xs[i := y]))) + mset (f (xs ! i)) = mset (concat (map f xs)) + mset (f y)"
proof (induction xs arbitrary: i)
  case Nil
  then show ?case by simp
next
  case (Cons x xs)
  then show ?case by (cases i) (simp_all add: add.assoc add.left_commute)
qed

lemma hands_setHand:
  "s < length (players g) \<Longrightarrow>
   mset (concat (map handCards (players (setHand g s h)))) + mset (handCards (players g ! s)) =
   mset (concat (map handCards (players g))) + mset h"
  using mset_concat_update [of s "players g" handCards "(players g ! s)\<lparr>handCards := h\<rparr>"]
  by (simp add: setHand_def)

lemma setHand_fields:
  "deck (setHand g s h) = deck g" "pileOfCards (setHand g s h) = pileOfCards g"
  "burnedCards (setHand g s h) = burnedCards g" "pickedCard (setHand g s h) = pickedCard g"
  "state (setHand g s h) = state g"
  by (simp_all add: setHand_def)

lemma mset_shuffle: "mset (shuffle sw d) = mset d"
proof (induction sw arbitrary: d)
  case Nil
  then show ?case by simp
next
  case (Cons a sw)
  obtain i j where a: "a = (i, j)" by (cases a)
  show ?case by (simp add: a Cons.IH mset_swap)
qed

lemma mset_dealHand:
  "dealHand n d p = (d', p', ok) \<Longrightarrow>
   mset d' + mset (handCards p') = mset d + mset (handCards p)"
  by (induction n d p rule: dealHand.induct) (auto simp: addCardToHand_def handAdd_def)

lemma mset_dealPlayers:
  "dealPlayers d ps = (d', ps', ok) \<Longrightarrow>
   mset d' + mset (concat (map handCards ps')) = mset d + mset (concat (map handCards ps))"
proof (induction ps arbitrary: d d' ps' ok)
  case Nil
  then show ?case by simp
next
  case (Cons p ps)
  obtain d1 p1 ok1 where h: "dealHand DEFAULT_NUMBER_OF_CARDS_PER_HAND d p = (d1, p1, ok1)"
    using prod_cases3 by blast
  note m1 = mset_dealHand [OF h]
  show ?case
  proof (cases ok1)
    case False
    from Cons.prems have "d' = d1 \<and> ps' = p1 # ps"
      by (simp add: h False)
    then show ?thesis
      using m1 by (simp add: add.assoc [symmetric])
  next
    case True
    obtain d2 ps2 ok2 where r: "dealPlayers d1 ps = (d2, ps2, ok2)"
      using prod_cases3 by blast
    from Cons.prems have e: "d' = d2 \<and> ps' = p1 # ps2"
      by (simp add: h True r)
    have "mset d' + mset (concat (map handCards ps')) =
          (mset d2 + mset (concat (map handCards ps2))) + mset (handCards p1)"
      by (simp add: e)
    also have "\<dots> = (mset d1 + mset (concat (map handCards ps))) + mset (handCards p1)"
      by (simp only: Cons.IH [OF r])
    also have "\<dots> = (mset d1 + mset (handCards p1)) + mset (concat (map handCards ps))"
      by (simp only: add.assoc add.commute [of "mset (handCards p1)"])
    also have "\<dots> = (mset d + mset (handCards p)) + mset (concat (map handCards ps))"
      by (simp only: m1)
    finally show ?thesis by (simp add: add.assoc)
  qed
qed

lemma mset_deckToPile: "mset (deckToPile d pile) = mset d + mset pile"
  by (induction d arbitrary: pile) (auto simp: put_def)

lemma held_distribute:
  "mset (heldCards (outcome (distributeCardsAction g))) = mset (heldCards g)"
proof -
  obtain d ps ok where r: "dealPlayers (deck g) (players g) = (d, ps, ok)"
    by (cases "dealPlayers (deck g) (players g)") auto
  from mset_dealPlayers [OF r] show ?thesis
    by (cases ok)
      (simp_all add: distributeCardsAction_def r outcome_def heldCards_def containerCards_def
        mset_deckToPile ac_simps)
qed

lemma held_state: "heldCards (g\<lparr>state := s\<rparr>) = heldCards g"
  by (simp add: heldCards_def containerCards_def)

lemma held_startRound:
  "mset (heldCards (outcome (startRoundAction g))) = mset (heldCards g)"
  using held_distribute [of g]
  by (cases "distributeCardsAction g")
    (simp_all add: startRoundAction_def outcome_def showTwoHandCardsAction_def held_state)

lemma held_setState: "mset (heldCards (outcome (setState g s))) = mset (heldCards g)"
proof (cases "s = RoundStart")
  case True
  then show ?thesis by (simp add: setState_RoundStart held_startRound held_state)
next
  case False
  then show ?thesis by (simp add: setState_other outcome_def held_state)
qed

lemma held_startGame:
  "mset (heldCards (outcome (startGameAction sw r g))) = mset (heldCards g)"
proof (cases "isGameStarted g")
  case True
  then show ?thesis by (simp add: startGameAction_def outcome_def)
next
  case False
  then show ?thesis
    by (simp add: startGameAction_def Let_def held_setState)
      (simp add: selectFirstTurnAction_def heldCards_def containerCards_def mset_shuffle)
qed

lemma held_join: "heldCards (outcome (joinAsPlayerAction g u pid)) = heldCards g"
  by (simp add: joinAsPlayerAction_def outcome_def Let_def setLeader_def heldCards_def containerCards_def)

lemma held_pickPile:
  "pickedCard g = None \<Longrightarrow> mset (heldCards (outcome (pickCardFromPileAction g))) = mset (heldCards g)"
  by (cases "pileOfCards g")
    (simp_all add: pickCardFromPileAction_def pick_def outcome_simps setState_other
      heldCards_def containerCards_def)

lemma held_pickBurned:
  "pickedCard g = None \<Longrightarrow> mset (heldCards (outcome (pickCardFromBurnedAction g))) = mset (heldCards g)"
  by (cases "burnedCards g")
    (simp_all add: pickCardFromBurnedAction_def pick_def outcome_simps setState_other
      heldCards_def containerCards_def)

lemma held_exchangePick: "heldCards (outcome (exchangePickWithHandAction g u cid)) = heldCards g"
  by (simp add: exchangePickWithHandAction_def outcome_simps setState_other held_state Let_def
      split: option.splits)

lemma held_exchangeOther:
  "heldCards (outcome (exchangeHandWithOther g u cid otherPid ocid)) = heldCards g"
  by (simp add: exchangeHandWithOther_def outcome_simps setState_other held_state Let_def
      split: option.splits)

lemma held_showOne: "heldCards (outcome (showOneHandCardAction g u cid)) = heldCards g"
  by (simp add: showOneHandCardAction_def outcome_simps setState_other held_state Let_def
      split: option.splits)

lemma held_showOther:
  "heldCards (outcome (showOneOtherHandCardAction g u otherPid ocid)) = heldCards g"
  by (simp add: showOneOtherHandCardAction_def outcome_simps setState_other held_state Let_def
      split: option.splits)

lemma held_pass: "heldCards (passAction g) = heldCards g"
  by (simp add: passAction_def heldCards_def containerCards_def)

lemma held_nextTurn: "heldCards (nextTurn g) = heldCards g"
  by (simp add: nextTurn_def heldCards_def containerCards_def)

lemma ident_useAbility:
  "map ident (heldCards (outcome (useAbilityAction g))) = map ident (heldCards g)"
  by (simp add: useAbilityAction_def outcome_simps setState_other held_state Let_def markAsUsed_def
      heldCards_def containerCards_def
      split: option.splits CardAbility.splits)

lemma held_burnOne:
  "mset (heldCards (outcome (burnOneHandCardAction g u cid))) = mset (heldCards g)"
proof (cases "burnedCards g")
  case Nil
  then show ?thesis by (simp add: burnOne_unfold outcome_simps)
next
  case (Cons t r)
  show ?thesis
  proof (cases "userPlayer_get g u")
    case None
    then show ?thesis by (simp add: burnOne_unfold Cons outcome_simps)
  next
    case (Some s)
    show ?thesis
    proof (cases "s < length (players g)")
      case False
      then show ?thesis by (simp add: burnOne_unfold Cons Some outcome_simps)
    next
      case s: True
      let ?h = "handCards (players g ! s)"
      show ?thesis
      proof (cases "getCard (players g ! s) cid")
        case None
        then show ?thesis by (simp add: burnOne_unfold Cons Some s outcome_simps)
      next
        case c: (Some c)
        then have m: "c \<in> set ?h" by (rule getCard_mem)
        show ?thesis
        proof (cases "rank c = rank t")
          case True
          let ?X = "mset (concat (map handCards (players (setHand g s (remove1 c ?h)))))"
          let ?Y = "mset (concat (map handCards (players g)))"
          have rem: "mset ?h = add_mset c (mset (remove1 c ?h))"
            using m by simp
          have "?X + mset ?h = ?Y + mset (remove1 c ?h)"
            by (rule hands_setHand [OF s])
          then have "add_mset c ?X + mset (remove1 c ?h) = ?Y + mset (remove1 c ?h)"
            by (simp only: rem union_mset_add_mset_right union_mset_add_mset_left)
          then have "add_mset c ?X = ?Y"
            by (simp only: add_right_cancel)
          then show ?thesis
            by (simp add: burnOne_unfold Cons Some s c True outcome_simps heldCards_def
                containerCards_def setHand_fields)
        next
          case False
          from hands_setHand [OF s, of "?h @ [t]"]
          have "mset (concat (map handCards (players (setHand g s (?h @ [t])))))
                = add_mset t (mset (concat (map handCards (players g))))"
            by simp
          then show ?thesis
            by (simp add: burnOne_unfold Cons Some s c False outcome_simps heldCards_def
                containerCards_def setHand_fields)
        qed
      qed
    qed
  qed
qed

lemma held_fresh: "newGame cards n st = Inr g \<Longrightarrow> heldCards g = cards"
  by (auto simp: newGame_def heldCards_def containerCards_def initializePlayers_def newPlayer_def
      split: if_splits)

lemma ident_mset: "mset (heldCards g') = mset (heldCards g) \<Longrightarrow>
   mset (map ident (heldCards g')) = mset (map ident (heldCards g))"
  by (metis mset_map)

lemma perform_ident:
  assumes "c \<noteq> DoEndOfTurn" and "isPick c \<Longrightarrow> pickedCard g = None"
  shows "mset (map ident (heldCards (perform g c))) = mset (map ident (heldCards g))"
proof (cases c)
  case (DoJoinAsPlayerAction u pid)
  then show ?thesis by (simp add: held_join)
next
  case (DoStartGameAction sw r)
  then show ?thesis using ident_mset [OF held_startGame] by simp
next
  case DoStartRoundAction
  then show ?thesis using ident_mset [OF held_startRound] by simp
next
  case DoDistributeCardsAction
  then show ?thesis using ident_mset [OF held_distribute] by simp
next
  case DoPickCardFromPileAction
  with assms have "pickedCard g = None" by (simp add: isPick_def)
  from ident_mset [OF held_pickPile [OF this]] show ?thesis
    by (simp add: DoPickCardFromPileAction)
next
  case DoPickCardFromBurnedAction
  with assms have "pickedCard g = None" by (simp add: isPick_def)
  from ident_mset [OF held_pickBurned [OF this]] show ?thesis
    by (simp add: DoPickCardFromBurnedAction)
next
  case (DoBurnOneHandCardAction u cid)
  then show ?thesis using ident_mset [OF held_burnOne] by simp
next
  case DoUseAbilityAction
  then show ?thesis by (simp add: ident_useAbility)
next
  case (DoExchangePickWithHandAction u cid)
  then show ?thesis by (simp add: held_exchangePick)
next
  case (DoExchangeHandWithOther u cid otherPid ocid)
  then show ?thesis by (simp add: held_exchangeOther)
next
  case (DoShowOneHandCardAction u cid)
  then show ?thesis by (simp add: held_showOne)
next
  case (DoShowOneOtherHandCardAction u otherPid ocid)
  then show ?thesis by (simp add: held_showOther)
next
  case DoPassAction
  then show ?thesis by (simp add: held_pass)
next
  case DoNextTurn
  then show ?thesis by (simp add: held_nextTurn)
next
  case DoEndOfTurn
  with assms show ?thesis by simp
qed

lemma run_ident:
  "pickedCardKept g cs \<Longrightarrow>
   mset (map ident (heldCards (run g cs))) = mset (map ident (heldCards g))"
proof (induction cs arbitrary: g)
  case Nil
  then show ?case by simp
next
  case (Cons c cs)
  from Cons.prems have c: "c \<noteq> DoEndOfTurn" and p: "isPick c \<Longrightarrow> pickedCard g = None"
    and rest: "pickedCardKept (perform g c) cs"
    by (auto split: if_splits)
  from Cons.IH [OF rest] perform_ident [OF c p] show ?case by simp
qed

text \<open>
  C1, as the code has it. After every sequence of calls of the operations of game.ts on
  a freshly constructed game, in any order and with any arguments, each returning or
  throwing, in which a pick is made only while no card is picked and \<open>endOfTurn\<close> is
  not called, the cards of the deck, the draw pile, the burn pile, the hands and
  \<open>pickedCard\<close> together are, by their ids, exactly the configured card set; when the
  ids of the set are distinct, no id is held twice.
\<close>

theorem card_conservation:
  assumes "newGame cards n st = Inr g"
    and "pickedCardKept g cs"
  shows "mset (map ident (heldCards (run g cs))) = mset (map ident cards)
     \<and> (distinct (map ident cards) \<longrightarrow> distinct (map ident (heldCards (run g cs))))"
proof -
  have "mset (map ident (heldCards (run g cs))) = mset (map ident cards)"
    using run_ident [OF assms(2)] held_fresh [OF assms(1)] by simp
  then show ?thesis by (metis mset_eq_imp_distinct_iff)
qed

lemma ex_fresh: "newGame exampleCards 3 BeginOfGame = Inr exampleGame"
  by (simp add: newGame_def exampleGame_def isValidMaxNumberOfPlayers_def
      MIN_NUMBER_OF_PLAYERS_def MAX_NUMBER_OF_PLAYERS_def initializePlayers_def numeral_3_eq_3)

lemma ex_run:
  "run exampleGame
     [DoJoinAsPlayerAction (Num 1) (Num 0), DoStartGameAction [] 0, DoPickCardFromPileAction] =
   examplePicked"
  by (simp add: ex_join ex_start ex_pick outcome_simps)

lemma ex_kept:
  "pickedCardKept exampleGame
     [DoJoinAsPlayerAction (Num 1) (Num 0), DoStartGameAction [] 0, DoPickCardFromPileAction]"
  by (simp add: ex_join ex_start ex_pick outcome_simps isPick_def exampleDealt_def)

theorem card_conservation_witness:
  "newGame exampleCards 3 BeginOfGame = Inr exampleGame
   \<and> pickedCardKept exampleGame
       [DoJoinAsPlayerAction (Num 1) (Num 0), DoStartGameAction [] 0, DoPickCardFromPileAction]
   \<and> run exampleGame
       [DoJoinAsPlayerAction (Num 1) (Num 0), DoStartGameAction [] 0, DoPickCardFromPileAction] =
      examplePicked
   \<and> mset (map ident (heldCards examplePicked)) = mset (map ident exampleCards)
   \<and> distinct (map ident exampleCards)
   \<and> distinct (map ident (heldCards examplePicked))"
proof -
  have d: "distinct (map ident exampleCards)"
    by (simp add: exampleCards_def mkCard_def)
  from card_conservation [OF ex_fresh ex_kept] d ex_fresh ex_kept ex_run show ?thesis
    by simp
qed

text \<open>
  C1 as the claim states it fails after a join, the start of the game and a pick from
  the draw pile, at \<open>examplePicked\<close>: the picked card is in none of the deck, the draw
  pile, the burn pile and the hands, so that their union is not the card set; and
  \<open>endOfTurn\<close> then leaves the card nowhere in the game.
\<close>

theorem picked_card_outside_containers:
  "newGame exampleCards 3 BeginOfGame = Inr exampleGame
   \<and> run exampleGame
       [DoJoinAsPlayerAction (Num 1) (Num 0), DoStartGameAction [] 0, DoPickCardFromPileAction] =
      examplePicked
   \<and> mkCard ''m'' 13 \<in> set exampleCards
   \<and> mkCard ''m'' 13 \<notin> set (containerCards examplePicked)
   \<and> mset (containerCards examplePicked) \<noteq> mset exampleCards
   \<and> mkCard ''m'' 13 \<notin> set (heldCards (perform examplePicked DoEndOfTurn))"
proof -
  have 1: "mkCard ''m'' 13 \<in> set exampleCards"
    by (simp add: exampleCards_def)
  have 2: "mkCard ''m'' 13 \<notin> set (containerCards examplePicked)"
    by (simp add: containerCards_def examplePicked_def exampleDealt_def mkCard_def)
  have 3: "mkCard ''m'' 13 \<notin> set (heldCards (perform examplePicked DoEndOfTurn))"
    by (simp add: heldCards_def endOfTurn_def containerCards_def examplePicked_def
        exampleDealt_def mkCard_def)
  from 1 2 have "mset (containerCards examplePicked) \<noteq> mset exampleCards"
    by (metis mset_eq_setD)
  with 1 2 3 ex_fresh ex_run show ?thesis by simp
qed

end
